theory Spec2Isabelle
  imports Complex_Main
begin

section \<open>Python values used by the payment engine\<close>

text \<open>
  Exceptions of the source are values. \<open>InvalidState\<close> is the exception of
  \<^verbatim>\<open>backends.py\<close>; \<open>ValidationError field message\<close> is Django's, raised with a
  one-entry dictionary; \<open>KeyError\<close>, \<open>IndexError\<close>, \<open>NotImplementedError\<close> and
  \<open>AttributeError\<close> are the built-in exceptions the modelled code raises
  (\<^verbatim>\<open>BACKENDS[name]\<close>, \<^verbatim>\<open>select[0]\<close>, \<^verbatim>\<open>raise NotImplementedError()\<close>,
  an attribute read on an object that lacks it). The others are raised by the
  collaborators the code calls without catching anything: \<open>InvalidSignature\<close> by the
  gateway library when the signature of a callback does not check, \<open>StorageError\<close> by
  the invoice storage, \<open>CalledProcessError\<close> by \<^verbatim>\<open>subprocess.run(..., check=True)\<close>,
  \<open>SMTPException\<close> by \<^verbatim>\<open>email.send()\<close> and \<open>ConnectionError\<close> by
  \<^verbatim>\<open>requests.post\<close>.
\<close>

datatype error =
    InvalidState
  | NotImplementedError
  | KeyError
  | IndexError
  | AttributeError
  | ValidationError string string
  | InvalidSignature
  | StorageError
  | CalledProcessError
  | SMTPException
  | ConnectionError

text \<open>
  The JSON fields \<^verbatim>\<open>details\<close> and \<^verbatim>\<open>extra\<close> and the keyword arguments of
  \<^verbatim>\<open>repeat_payment\<close> are dictionaries with string keys. The values the modelled code
  stores are strings and \<^verbatim>\<open>None\<close>.
\<close>

datatype json = Null | Str string

type_synonym dict = "string \<rightharpoonup> json"

text \<open>\<^verbatim>\<open>d.get(key, default)\<close>\<close>

definition dict_get :: "dict \<Rightarrow> string \<Rightarrow> json \<Rightarrow> json" where
  "dict_get d k dflt = (case d k of None \<Rightarrow> dflt | Some v \<Rightarrow> v)"

text \<open>
  \<^verbatim>\<open>str.upper()\<close> on the ASCII letters; a \<open>char\<close> is a byte, so the case mapping of
  characters beyond ASCII is outside the model.
\<close>

definition upper_char :: "char \<Rightarrow> char" where
  "upper_char c =
     (let n = (of_char c :: nat) in if 97 \<le> n \<and> n \<le> 122 then char_of (n - 32) else c)"

definition upper :: "string \<Rightarrow> string" where
  "upper s = map upper_char s"

text \<open>\<^verbatim>\<open>str(n)\<close> for an integer: its decimal digits.\<close>

fun str_nat :: "nat \<Rightarrow> string" where
  "str_nat n =
     (if n < 10 then [char_of (48 + n)] else str_nat (n div 10) @ [char_of (48 + n mod 10)])"

definition str_int :: "int \<Rightarrow> string" where
  "str_int i = (if i < 0 then CHR ''-'' # str_nat (nat (- i)) else str_nat (nat i))"

text \<open>
  Python 3 \<^verbatim>\<open>round(x, ndigits)\<close>: to the nearest multiple of \<open>10 ^ -ndigits\<close>, a tie
  going to the even neighbour. Python floats are modelled by exact rationals: the model
  rounds where the source calls \<^verbatim>\<open>round\<close> and nowhere else.
\<close>

definition round_half_even :: "rat \<Rightarrow> int" where
  "round_half_even y =
     (let f = \<lfloor>y\<rfloor>; d = y - of_int f
      in if d < 1 / 2 then f else if 1 / 2 < d then f + 1 else if even f then f else f + 1)"

definition py_round :: "rat \<Rightarrow> nat \<Rightarrow> rat" where
  "py_round x ndigits = of_int (round_half_even (x * 10 ^ ndigits)) / 10 ^ ndigits"


section \<open>models.py: Customer\<close>

definition EU_VAT_RATES :: "string \<rightharpoonup> int" where
  "EU_VAT_RATES = map_of
     [(''BE'', 21), (''BG'', 20), (''CZ'', 21), (''DK'', 25), (''DE'', 19), (''EE'', 20),
      (''IE'', 23), (''GR'', 24), (''ES'', 21), (''FR'', 20), (''HR'', 25), (''IT'', 22),
      (''CY'', 19), (''LV'', 21), (''LT'', 21), (''LU'', 17), (''HU'', 27), (''MT'', 18),
      (''NL'', 21), (''AT'', 20), (''PL'', 23), (''PT'', 23), (''RO'', 19), (''SI'', 22),
      (''SK'', 20), (''FI'', 24), (''SE'', 25), (''GB'', 20)]"

definition VAT_RATE :: int where
  "VAT_RATE = 21"

text \<open>
  The value of a \<^verbatim>\<open>VATINField\<close>: either an object of the VAT library with a
  \<^verbatim>\<open>country_code\<close> attribute and a number, or a plain string; \<^verbatim>\<open>clean\<close> and
  \<^verbatim>\<open>vat_country_code\<close> handle both (\<^verbatim>\<open>hasattr(self.vat, 'country_code')\<close>). The field
  is nullable, so a customer holds an option of it.
\<close>

datatype vatin = VATIN string string | VatString string

record Customer =
  pk :: nat
  vat :: "vatin option"
  tax :: string
  name :: "string option"
  address :: "string option"
  city :: "string option"
  country :: "string option"
  email :: string
  origin :: string
  user_id :: int

text \<open>
  Python truthiness of the two fields the properties test: \<^verbatim>\<open>None\<close> and the empty
  string are false, an object of the VAT library is true, a country is true when its code
  is not empty.
\<close>

fun vat_set :: "vatin option \<Rightarrow> bool" where
  "vat_set None = False"
| "vat_set (Some (VatString s)) = (s \<noteq> [])"
| "vat_set (Some (VATIN cc num)) = True"

fun country_set :: "string option \<Rightarrow> bool" where
  "country_set None = False"
| "country_set (Some code) = (code \<noteq> [])"

definition country_code :: "Customer \<Rightarrow> string option" where
  "country_code c =
     (if country_set (country c) then Some (upper (the (country c))) else None)"

definition vat_country_code :: "Customer \<Rightarrow> string option" where
  "vat_country_code c =
     (if vat_set (vat c) then
        (case the (vat c) of
           VATIN cc num \<Rightarrow> Some (upper cc)
         | VatString s \<Rightarrow> Some (upper (take 2 s)))
      else None)"

text \<open>
  \<^verbatim>\<open>clean\<close> returns nothing and may raise; the customer is threaded through so that
  what validation does to the fields is part of the result.
\<close>

definition clean :: "Customer \<Rightarrow> (error + unit) \<times> Customer" where
  "clean c =
     (if vat_set (vat c) then
        (if vat_country_code c \<noteq> country_code c
         then (Inl (ValidationError ''country'' ''The country has to match your VAT code''), c)
         else (Inr (), c))
      else (Inr (), c))"

definition is_eu_enduser :: "Customer \<Rightarrow> bool" where
  "is_eu_enduser c =
     ((case country_code c of None \<Rightarrow> False | Some cc \<Rightarrow> EU_VAT_RATES cc \<noteq> None)
      \<and> \<not> vat_set (vat c))"

definition needs_vat :: "Customer \<Rightarrow> bool" where
  "needs_vat c = (vat_country_code c = Some ''CZ'' \<or> is_eu_enduser c)"

definition vat_rate :: "Customer \<Rightarrow> int" where
  "vat_rate c = (if needs_vat c then VAT_RATE else 0)"


section \<open>models.py: Payment\<close>

text \<open>The five states, with the integer each has in the database.\<close>

datatype state = NEW | PENDING | REJECTED | ACCEPTED | PROCESSED

fun state_code :: "state \<Rightarrow> int" where
  "state_code NEW = 1"
| "state_code PENDING = 2"
| "state_code REJECTED = 3"
| "state_code ACCEPTED = 4"
| "state_code PROCESSED = 5"

text \<open>
  A row of the payments table. \<open>uuid\<close> is the primary key in its string form, \<open>created\<close>
  a timestamp, \<open>repeat\<close> the primary key of the payment this one renews, and \<open>customer\<close>
  the customer row the foreign key loads.
\<close>

record Payment =
  uuid :: string
  amount :: int
  description :: string
  recurring :: string
  created :: nat
  state :: state
  backend :: string
  details :: dict
  extra :: dict
  customer :: Customer
  repeat :: "string option"
  invoice :: string
  amount_fixed :: bool

text \<open>
  \<^verbatim>\<open>vat_amount\<close> and \<^verbatim>\<open>amount_without_vat\<close> return a float in one branch and the
  integer amount in the other; both are rationals here.
\<close>

definition vat_amount :: "Payment \<Rightarrow> rat" where
  "vat_amount p =
     (if needs_vat (customer p) \<and> \<not> amount_fixed p then
        (let rate = 100 + vat_rate (customer p)
         in py_round (1 * of_int rate * of_int (amount p) / 100) 2)
      else of_int (amount p))"

definition amount_without_vat :: "Payment \<Rightarrow> rat" where
  "amount_without_vat p =
     (if needs_vat (customer p) \<and> amount_fixed p then
        100 * of_int (amount p) / of_int (100 + vat_rate (customer p))
      else of_int (amount p))"


section \<open>Settings, collaborators and the world the engine acts on\<close>

text \<open>
  What a call reads from its surroundings: the \<^verbatim>\<open>PAYMENT_*\<close> settings, the active
  language and the supported ones (\<^verbatim>\<open>get_language()\<close>, \<^verbatim>\<open>SUPPORTED_LANGUAGES\<close>), and the
  values the surroundings choose during the call: the key and the timestamp of a row that
  is inserted (\<^verbatim>\<open>uuid.uuid4\<close>, \<^verbatim>\<open>auto_now_add\<close>), the invoice the invoice storage
  allocates, and whether a collaborator raises: the invoice storage (\<open>storage_error\<close>),
  the two git commands run with \<^verbatim>\<open>check=True\<close> (\<open>git_error\<close>), the sending of a mail
  (\<open>mail_error\<close>) and the outbound HTTP post (\<open>post_error\<close>); \<open>None\<close> is a call that
  returns.
\<close>

record invoice_rec =
  invoiceid :: string
  pdf_path :: string

record env =
  PAYMENT_DEBUG :: bool
  PAYMENT_FAKTURACE :: "string option"
  PAYMENT_SECRET :: string
  PAYMENT_REDIRECT_URL :: string
  PAYMENT_THEPAY_MERCHANTID :: "string option"
  PAYMENT_THEPAY_ACCOUNTID :: "string option"
  PAYMENT_THEPAY_PASSWORD :: "string option"
  PAYMENT_THEPAY_DATAAPI :: "string option"
  get_language :: string
  SUPPORTED_LANGUAGES :: "string list"
  uuid4 :: string
  now :: nat
  next_invoice :: invoice_rec
  storage_error :: "error option"
  git_error :: "error option"
  mail_error :: "error option"
  post_error :: "error option"

text \<open>
  What the invoice storage holds for one generated invoice: the contact written by
  \<^verbatim>\<open>update_contact\<close>, the arguments of \<^verbatim>\<open>create\<close>, the payload of \<^verbatim>\<open>mark_paid\<close>
  and the message of the commit, \<open>None\<close> while the files are not committed.
\<close>

record ledger_entry =
  contact_id :: string
  contact :: Customer
  currency :: string
  category :: string
  rate :: string
  item :: string
  vat_str :: string
  payment_method :: string
  paid :: dict
  stored :: invoice_rec
  commit_message :: "string option"

datatype body = PaymentThanks string | PaymentFailed json string

record email_message =
  subject :: string
  message :: body
  from_email :: string
  recipients :: "string list"
  attachments :: "string list"

text \<open>
  \<^verbatim>\<open>PAYMENT_REDIRECT_URL.format(language=..., uuid=...)\<close>: the template with its two
  arguments; an outbound \<^verbatim>\<open>requests.post\<close> is the address with the form data.
\<close>

datatype url = Format string string string

record http_post =
  post_url :: url
  post_data :: dict

text \<open>
  The world: the payments table, the invoice storage, the mails sent and the HTTP posts
  made. A mail that is sent and a post that is made are appended to the last two.
\<close>

record world =
  payments :: "Payment list"
  storage :: "ledger_entry list"
  outbox :: "email_message list"
  posts :: "http_post list"

text \<open>\<^verbatim>\<open>Payment.objects.filter(pk=pk)\<close>\<close>

definition fetch :: "world \<Rightarrow> string \<Rightarrow> Payment list" where
  "fetch w k = filter (\<lambda>r. uuid r = k) (payments w)"

text \<open>
  \<^verbatim>\<open>payment.save()\<close>: the row with the payment's key is overwritten; without such a row
  the payment is inserted.
\<close>

definition save :: "Payment \<Rightarrow> world \<Rightarrow> world" where
  "save p w =
     (if fetch w (uuid p) \<noteq> []
      then w\<lparr>payments := map (\<lambda>r. if uuid r = uuid p then p else r) (payments w)\<rparr>
      else w\<lparr>payments := payments w @ [p]\<rparr>)"


section \<open>backends.py: the backend classes\<close>

text \<open>
  The class \<^verbatim>\<open>Backend\<close> and its five registered subclasses. A class attribute is a
  function of the class, with the value a subclass inherits written out.
\<close>

datatype backend_cls = Backend | DebugPay | DebugReject | DebugPending | ThePayCard | ThePayBitcoin

fun cls_name :: "backend_cls \<Rightarrow> string option" where
  "cls_name Backend = None"
| "cls_name DebugPay = Some ''pay''"
| "cls_name DebugReject = Some ''reject''"
| "cls_name DebugPending = Some ''pending''"
| "cls_name ThePayCard = Some ''thepay-card''"
| "cls_name ThePayBitcoin = Some ''thepay-bitcoin''"

fun cls_debug :: "backend_cls \<Rightarrow> bool" where
  "cls_debug Backend = False"
| "cls_debug DebugPay = True"
| "cls_debug DebugReject = True"
| "cls_debug DebugPending = True"
| "cls_debug ThePayCard = False"
| "cls_debug ThePayBitcoin = False"

fun cls_verbose :: "backend_cls \<Rightarrow> string option" where
  "cls_verbose Backend = None"
| "cls_verbose DebugPay = Some ''Pay''"
| "cls_verbose DebugReject = Some ''Reject''"
| "cls_verbose DebugPending = Some ''Pending''"
| "cls_verbose ThePayCard = Some ''Payment card''"
| "cls_verbose ThePayBitcoin = Some ''Bitcoin''"

fun cls_recurring :: "backend_cls \<Rightarrow> bool" where
  "cls_recurring Backend = False"
| "cls_recurring DebugPay = True"
| "cls_recurring DebugReject = False"
| "cls_recurring DebugPending = False"
| "cls_recurring ThePayCard = True"
| "cls_recurring ThePayBitcoin = False"

fun thepay_method :: "backend_cls \<Rightarrow> int option" where
  "thepay_method ThePayCard = Some 21"
| "thepay_method ThePayBitcoin = Some 29"
| "thepay_method _ = None"

text \<open>\<^verbatim>\<open>str(x)\<close> and the JSON value of an attribute that may be \<^verbatim>\<open>None\<close>.\<close>

fun str_opt :: "string option \<Rightarrow> string" where
  "str_opt None = ''None''"
| "str_opt (Some s) = s"

fun json_opt :: "string option \<Rightarrow> json" where
  "json_opt None = Null"
| "json_opt (Some s) = Str s"

text \<open>
  \<^verbatim>\<open>BACKENDS\<close> after the module is loaded: \<^verbatim>\<open>register_backend\<close> stores each decorated
  class under its name, in the order of the file. The registry is read at string keys
  only, where a class without a name would not be found.
\<close>

definition register_backend :: "backend_cls \<Rightarrow> (string \<rightharpoonup> backend_cls) \<Rightarrow> (string \<rightharpoonup> backend_cls)" where
  "register_backend b reg = (case cls_name b of Some nm \<Rightarrow> reg(nm \<mapsto> b) | None \<Rightarrow> reg)"

definition BACKENDS :: "string \<rightharpoonup> backend_cls" where
  "BACKENDS =
     fold register_backend [DebugPay, DebugReject, DebugPending, ThePayCard, ThePayBitcoin] Map.empty"

definition get_backend :: "env \<Rightarrow> string \<Rightarrow> error + backend_cls" where
  "get_backend e nm =
     (case BACKENDS nm of
        None \<Rightarrow> Inl KeyError
      | Some b \<Rightarrow> if cls_debug b \<and> \<not> PAYMENT_DEBUG e then Inl KeyError else Inr b)"

text \<open>
  The gateway library, as far as the backends use it: its configuration (the library's
  defaults or the credentials of the settings), the payment object \<^verbatim>\<open>perform\<close> fills
  in, and what \<^verbatim>\<open>ReturnPayment\<close> reads from the callback request: whether the signature
  is the one the library computes, the merchant data, the status and the raw data.
\<close>

datatype thepay_config =
    DefaultConfig
  | Credentials string "string option" "string option" "string option"

record thepay_payment =
  Currency :: string
  Value :: rat
  MethodId :: int
  CustomerEmail :: string
  Description :: string
  ReturnUrl :: string
  MerchantData :: string
  IsRecurring :: "int option"

record request =
  signature_valid :: bool
  getMerchantData :: string
  getStatus :: int
  data :: dict

text \<open>
  \<^verbatim>\<open>return_payment.checkSignature()\<close> of the gateway library: it returns \<^verbatim>\<open>True\<close> when
  the signature of the callback checks and raises \<^verbatim>\<open>InvalidSignature\<close> when it does
  not; it never returns \<^verbatim>\<open>False\<close>.
\<close>

definition checkSignature :: "request \<Rightarrow> error + bool" where
  "checkSignature req = (if signature_valid req then Inr True else Inl InvalidSignature)"

text \<open>
  A redirect response: to a given address, or to the address the gateway library
  builds from a configuration and a payment (\<^verbatim>\<open>payment.getCreateUrl()\<close>).
\<close>

datatype response = Redirect string | RedirectCreateUrl thepay_config thepay_payment

text \<open>A backend object: the locked payment row, the invoice once generated, the gateway configuration.\<close>

record backend_obj =
  payment :: Payment
  self_invoice :: "invoice_rec option"
  config :: "thepay_config option"

definition thepay_config_of :: "env \<Rightarrow> thepay_config" where
  "thepay_config_of e =
     (case PAYMENT_THEPAY_MERCHANTID e of
        None \<Rightarrow> DefaultConfig
      | Some m \<Rightarrow>
          if m \<noteq> [] then
            Credentials m (PAYMENT_THEPAY_ACCOUNTID e) (PAYMENT_THEPAY_PASSWORD e)
              (PAYMENT_THEPAY_DATAAPI e)
          else DefaultConfig)"

text \<open>
  \<^verbatim>\<open>__init__\<close>: the row is read again by its key, \<^verbatim>\<open>select[0]\<close> raising when there is
  none; the two gateway classes add their configuration.
\<close>

definition Backend_init :: "env \<Rightarrow> backend_cls \<Rightarrow> Payment \<Rightarrow> world \<Rightarrow> error + backend_obj" where
  "Backend_init e cls p w =
     (case fetch w (uuid p) of
        [] \<Rightarrow> Inl IndexError
      | r # _ \<Rightarrow>
          Inr \<lparr>payment = r, self_invoice = None,
               config = (if cls = ThePayCard \<or> cls = ThePayBitcoin
                         then Some (thepay_config_of e) else None)\<rparr>)"


section \<open>backends.py: perform and collect\<close>

text \<open>
  \<^verbatim>\<open>ThePayCard.perform\<close>, inherited by \<^verbatim>\<open>ThePayBitcoin\<close> with its own
  \<^verbatim>\<open>thepay_method\<close>. No \<^verbatim>\<open>perform\<close> of the file assigns to the backend object, so
  \<open>perform\<close> returns its result only.
\<close>

definition ThePayCard_perform ::
  "backend_cls \<Rightarrow> request \<Rightarrow> string \<Rightarrow> string \<Rightarrow> backend_obj \<Rightarrow> error + response option" where
  "ThePayCard_perform cls req back_url complete_url self =
     (case (config self, thepay_method cls) of
        (Some cfg, Some m) \<Rightarrow>
          (let p = \<lparr>Currency = ''EUR'',
                    Value = vat_amount (payment self),
                    MethodId = m,
                    CustomerEmail = email (customer (payment self)),
                    Description = description (payment self),
                    ReturnUrl = complete_url,
                    MerchantData = uuid (payment self),
                    IsRecurring = None\<rparr>;
               p = (if recurring (payment self) \<noteq> [] then p\<lparr>IsRecurring := Some 1\<rparr>
                    else if repeat (payment self) \<noteq> None then p
                    else p)
           in Inr (Some (RedirectCreateUrl cfg p)))
      | _ \<Rightarrow> Inl AttributeError)"

fun perform ::
  "backend_cls \<Rightarrow> request \<Rightarrow> string \<Rightarrow> string \<Rightarrow> backend_obj \<Rightarrow> error + response option" where
  "perform Backend req back_url complete_url self = Inl NotImplementedError"
| "perform DebugPay req back_url complete_url self = Inr None"
| "perform DebugReject req back_url complete_url self = Inr None"
| "perform DebugPending req back_url complete_url self =
     Inr (Some (Redirect (''https://cihar.com/?url='' @ complete_url)))"
| "perform ThePayCard req back_url complete_url self =
     ThePayCard_perform ThePayCard req back_url complete_url self"
| "perform ThePayBitcoin req back_url complete_url self =
     ThePayCard_perform ThePayBitcoin req back_url complete_url self"

text \<open>
  \<^verbatim>\<open>collect\<close> may assign to \<^verbatim>\<open>self.payment.details\<close>, so it returns the backend object
  with its result.
\<close>

definition reject_reason :: "int \<Rightarrow> string" where
  "reject_reason status =
     (let reason = ''Unknown: '' @ str_int status
      in if status = 3 then ''Payment cancelled''
         else if status = 4 then ''Error during payment''
         else if status = 6 then ''Underpaid''
         else if status = 7 then ''Waiting for additional confirmation''
         else if status = 9 then ''Deposit confirmed''
         else reason)"

definition ThePayCard_collect :: "request \<Rightarrow> backend_obj \<Rightarrow> (error + bool) \<times> backend_obj" where
  "ThePayCard_collect req self =
     (case config self of
        None \<Rightarrow> (Inl AttributeError, self)
      | Some cfg \<Rightarrow>
          (case checkSignature req of
             Inl err \<Rightarrow> (Inl err, self)
           | Inr signed \<Rightarrow>
               if \<not> signed then (Inr False, self)
               else if getMerchantData req \<noteq> uuid (payment self) then (Inr False, self)
               else
                 (let self1 = self\<lparr>payment := (payment self)\<lparr>details := data req\<rparr>\<rparr>;
                      status = getStatus req
                  in if status = 2 then (Inr True, self1)
                     else
                       (Inr False,
                        self1\<lparr>payment := (payment self1)
                          \<lparr>details := (details (payment self1))
                             (''reject_reason'' \<mapsto> Str (reject_reason status))\<rparr>\<rparr>))))"

fun collect :: "backend_cls \<Rightarrow> request \<Rightarrow> backend_obj \<Rightarrow> (error + bool) \<times> backend_obj" where
  "collect Backend req self = (Inl NotImplementedError, self)"
| "collect DebugPay req self = (Inr True, self)"
| "collect DebugReject req self =
     (Inr False,
      self\<lparr>payment := (payment self)
        \<lparr>details := (details (payment self))(''reject_reason'' \<mapsto> Str ''Debug reject'')\<rparr>\<rparr>)"
| "collect DebugPending req self = (Inr True, self)"
| "collect ThePayCard req self = ThePayCard_collect req self"
| "collect ThePayBitcoin req self = ThePayCard_collect req self"


section \<open>backends.py: the lifecycle methods of Backend\<close>

text \<open>
  \<^verbatim>\<open>generate_invoice\<close> does nothing when invoicing is not configured. Otherwise the
  calls to the invoice storage come first and raise before anything is assigned; then
  \<^verbatim>\<open>self.payment.invoice\<close> is set; then the two git commands run and raise before
  \<^verbatim>\<open>self.invoice\<close> is set. The method returns nothing: its result is the exception or
  \<open>()\<close>, with the backend object and the world as it leaves them.
\<close>

definition generate_invoice ::
  "env \<Rightarrow> backend_cls \<Rightarrow> backend_obj \<Rightarrow> world \<Rightarrow> (error + unit) \<times> backend_obj \<times> world" where
  "generate_invoice e cls self w =
     (case PAYMENT_FAKTURACE e of
        None \<Rightarrow> (Inr (), self, w)
      | Some dir \<Rightarrow>
          (case storage_error e of
             Some err \<Rightarrow> (Inl err, self, w)
           | None \<Rightarrow>
               (let cust = customer (payment self);
                    customer_id = ''web-'' @ str_nat (pk cust);
                    doc = next_invoice e;
                    entry = \<lparr>contact_id = customer_id,
                             contact = cust,
                             currency = ''EUR'',
                             category = ''weblate'',
                             rate = str_int (amount (payment self)) @ ''.00'',
                             item = description (payment self),
                             vat_str = str_int (vat_rate cust),
                             payment_method = str_opt (cls_verbose cls),
                             paid = details (payment self),
                             stored = doc,
                             commit_message = None\<rparr>;
                    self1 = self\<lparr>payment := (payment self)\<lparr>invoice := invoiceid doc\<rparr>\<rparr>
                in case git_error e of
                     Some err \<Rightarrow> (Inl err, self1, w\<lparr>storage := storage w @ [entry]\<rparr>)
                   | None \<Rightarrow>
                       (Inr (), self1\<lparr>self_invoice := Some doc\<rparr>,
                        w\<lparr>storage := storage w @
                            [entry\<lparr>commit_message :=
                                     Some (''Invoice '' @ invoice (payment self1))\<rparr>]\<rparr>))))"

text \<open>
  The two notifications build the message and call \<^verbatim>\<open>email.send()\<close>, which sends it
  or raises.
\<close>

definition notify_user :: "env \<Rightarrow> backend_obj \<Rightarrow> world \<Rightarrow> (error + unit) \<times> world" where
  "notify_user e self w =
     (let mail = \<lparr>subject = ''Your payment on weblate.org'',
                  message = PaymentThanks (origin (customer (payment self))),
                  from_email = ''billing@weblate.org'',
                  recipients = [email (customer (payment self))],
                  attachments = []\<rparr>;
          mail = (case self_invoice self of
                    None \<Rightarrow> mail
                  | Some doc \<Rightarrow> mail\<lparr>attachments := attachments mail @ [pdf_path doc]\<rparr>)
      in case mail_error e of
           Some err \<Rightarrow> (Inl err, w)
         | None \<Rightarrow> (Inr (), w\<lparr>outbox := outbox w @ [mail]\<rparr>))"

definition notify_failure :: "env \<Rightarrow> backend_obj \<Rightarrow> world \<Rightarrow> (error + unit) \<times> world" where
  "notify_failure e self w =
     (let mail = \<lparr>subject = ''Your failed payment on weblate.org'',
                  message = PaymentFailed
                    (dict_get (details (payment self)) ''reject_reason'' (Str ''Uknown''))
                    (origin (customer (payment self))),
                  from_email = ''billing@weblate.org'',
                  recipients = [email (customer (payment self))],
                  attachments = []\<rparr>;
          mail = (case self_invoice self of
                    None \<Rightarrow> mail
                  | Some doc \<Rightarrow> mail\<lparr>attachments := attachments mail @ [pdf_path doc]\<rparr>)
      in case mail_error e of
           Some err \<Rightarrow> (Inl err, w)
         | None \<Rightarrow> (Inr (), w\<lparr>outbox := outbox w @ [mail]\<rparr>))"

text \<open>
  \<^verbatim>\<open>success\<close> and \<^verbatim>\<open>failure\<close>: an exception of \<^verbatim>\<open>generate_invoice\<close> leaves
  \<^verbatim>\<open>success\<close> before \<^verbatim>\<open>save\<close>, an exception of a notification leaves after it.
\<close>

definition success ::
  "env \<Rightarrow> backend_cls \<Rightarrow> backend_obj \<Rightarrow> world \<Rightarrow> (error + unit) \<times> backend_obj \<times> world" where
  "success e cls self w =
     (let self1 = self\<lparr>payment := (payment self)\<lparr>state := ACCEPTED\<rparr>\<rparr>;
          self2 = (if \<not> cls_recurring cls
                   then self1\<lparr>payment := (payment self1)\<lparr>recurring := []\<rparr>\<rparr>
                   else self1)
      in case generate_invoice e cls self2 w of
           (Inl err, self3, w1) \<Rightarrow> (Inl err, self3, w1)
         | (Inr done, self3, w1) \<Rightarrow>
             (let w2 = save (payment self3) w1
              in case notify_user e self3 w2 of
                   (Inl err, w3) \<Rightarrow> (Inl err, self3, w3)
                 | (Inr sent, w3) \<Rightarrow> (Inr (), self3, w3)))"

text \<open>
  The backend object after the two assignments that open \<^verbatim>\<open>success\<close>: the state is
  ACCEPTED and \<open>recurring\<close> is cleared unless the class declares \<open>recurring\<close>.
\<close>

definition accepted :: "backend_cls \<Rightarrow> backend_obj \<Rightarrow> backend_obj" where
  "accepted cls self =
     (if \<not> cls_recurring cls
      then self\<lparr>payment := (payment self)\<lparr>state := ACCEPTED, recurring := []\<rparr>\<rparr>
      else self\<lparr>payment := (payment self)\<lparr>state := ACCEPTED\<rparr>\<rparr>)"

definition failure ::
  "env \<Rightarrow> backend_obj \<Rightarrow> world \<Rightarrow> (error + unit) \<times> backend_obj \<times> world" where
  "failure e self w =
     (let self1 = self\<lparr>payment := (payment self)\<lparr>state := REJECTED\<rparr>\<rparr>;
          w1 = save (payment self1) w
      in case notify_failure e self1 w1 of
           (Inl err, w2) \<Rightarrow> (Inl err, self1, w2)
         | (Inr sent, w2) \<Rightarrow> (Inr (), self1, w2))"

text \<open>
  \<^verbatim>\<open>initiate\<close> and \<^verbatim>\<open>complete\<close> return their result (or the exception), the backend
  object and the world, both as the call leaves them.
\<close>

definition initiate ::
  "env \<Rightarrow> backend_cls \<Rightarrow> request \<Rightarrow> string \<Rightarrow> string \<Rightarrow> backend_obj \<Rightarrow> world
   \<Rightarrow> (error + response option) \<times> backend_obj \<times> world" where
  "initiate e cls req back_url complete_url self w =
     (if state (payment self) \<noteq> NEW then (Inl InvalidState, self, w)
      else if repeat (payment self) \<noteq> None \<and> \<not> cls_recurring cls then (Inl InvalidState, self, w)
      else
        (case perform cls req back_url complete_url self of
           Inl err \<Rightarrow> (Inl err, self, w)
         | Inr result \<Rightarrow>
             (let self1 = self\<lparr>payment := (payment self)\<lparr>state := PENDING\<rparr>\<rparr>;
                  self2 = self1\<lparr>payment := (payment self1)
                    \<lparr>details := (details (payment self1))(''backend'' \<mapsto> json_opt (cls_name cls))\<rparr>\<rparr>
              in (Inr result, self2, save (payment self2) w))))"

definition complete ::
  "env \<Rightarrow> backend_cls \<Rightarrow> request \<Rightarrow> backend_obj \<Rightarrow> world \<Rightarrow> (error + bool) \<times> backend_obj \<times> world" where
  "complete e cls req self w =
     (if state (payment self) \<noteq> PENDING then (Inl InvalidState, self, w)
      else
        (case collect cls req self of
           (Inl err, self1) \<Rightarrow> (Inl err, self1, w)
         | (Inr collected, self1) \<Rightarrow>
             if collected then
               (case success e cls self1 w of
                  (Inl err, self2, w1) \<Rightarrow> (Inl err, self2, w1)
                | (Inr done, self2, w1) \<Rightarrow> (Inr True, self2, w1))
             else
               (case failure e self1 w of
                  (Inl err, self2, w1) \<Rightarrow> (Inl err, self2, w1)
                | (Inr done, self2, w1) \<Rightarrow> (Inr False, self2, w1))))"


section \<open>models.py: repeat_payment\<close>

definition get_payment_url :: "env \<Rightarrow> Payment \<Rightarrow> url" where
  "get_payment_url e self =
     (let language = get_language e;
          language = (if language \<notin> set (SUPPORTED_LANGUAGES e) then ''en'' else language)
      in Format (PAYMENT_REDIRECT_URL e) language (uuid self))"

text \<open>
  The query set \<^verbatim>\<open>failures\<close> when the \<^verbatim>\<open>try\<close> block is left. \<^verbatim>\<open>order_by('-created')\<close>
  is the rows sorted by \<open>created\<close>, latest first; \<^verbatim>\<open>[0]\<close> on an empty result raises
  \<^verbatim>\<open>IndexError\<close>, which the source passes over.
\<close>

definition failures :: "Payment list \<Rightarrow> Payment list" where
  "failures previous =
     (let failures = filter (\<lambda>r. state r = REJECTED) previous
      in case rev (sort_key created (filter (\<lambda>r. state r = PROCESSED) previous)) of
           [] \<Rightarrow> failures
         | last_good # _ \<Rightarrow> filter (\<lambda>r. created last_good < created r) failures)"

text \<open>
  \<^verbatim>\<open>repeat_payment\<close> returns \<^verbatim>\<open>False\<close> or falls off its end, returning \<^verbatim>\<open>None\<close>: its
  value is a \<open>bool option\<close>, with \<open>None\<close> for \<^verbatim>\<open>None\<close>. The inserted row has the
  defaults of the model for the fields \<^verbatim>\<open>create\<close> is not given. The row is inserted
  inside the transaction; \<^verbatim>\<open>requests.post\<close> is called after it, outside any
  \<^verbatim>\<open>try\<close>, so when it raises the exception leaves \<^verbatim>\<open>repeat_payment\<close> with the row
  committed.
\<close>

definition repeat_payment :: "env \<Rightarrow> dict \<Rightarrow> Payment \<Rightarrow> world \<Rightarrow> (error + bool option) \<times> world" where
  "repeat_payment e kwargs self w =
     (case get_backend e (backend self) of
        Inl err \<Rightarrow> if err = KeyError then (Inr (Some False), w) else (Inl err, w)
      | Inr b \<Rightarrow>
          (let previous = filter (\<lambda>r. repeat r = Some (uuid self)) (payments w)
           in if previous \<noteq> [] \<and> 3 \<le> length (failures previous) then (Inr (Some False), w)
              else
                (let extra0 = Map.empty;
                     extra1 = extra0 ++ extra self;
                     extra2 = extra1 ++ kwargs;
                     new = \<lparr>uuid = uuid4 e,
                            amount = amount self,
                            description = description self,
                            recurring = [],
                            created = now e,
                            state = NEW,
                            backend = [],
                            details = Map.empty,
                            extra = extra2,
                            customer = customer self,
                            repeat = Some (uuid self),
                            invoice = [],
                            amount_fixed = amount_fixed self\<rparr>;
                     w1 = w\<lparr>payments := payments w @ [new]\<rparr>;
                     post = \<lparr>post_url = get_payment_url e self,
                             post_data = [''method'' \<mapsto> Str (backend self),
                                          ''secret'' \<mapsto> Str (PAYMENT_SECRET e)]\<rparr>
                 in case post_error e of
                      Some err \<Rightarrow> (Inl err, w1)
                    | None \<Rightarrow> (Inr None, w1\<lparr>posts := posts w1 @ [post]\<rparr>))))"

text \<open>Python truthiness of what \<^verbatim>\<open>repeat_payment\<close> returns.\<close>

fun truthy :: "bool option \<Rightarrow> bool" where
  "truthy None = False"
| "truthy (Some b) = b"


section \<open>Operations of the web layer on the payments table\<close>

text \<open>
  One operation as views.py performs it: inside \<^verbatim>\<open>transaction.atomic(using='payments_db')\<close>
  a backend object of some class is constructed for a payment
  (\<^verbatim>\<open>get_backend(method)(self.object)\<close>) and \<^verbatim>\<open>initiate\<close> or \<^verbatim>\<open>complete\<close> is called on
  it. When the call returns, the world is as the call left it; when it raises, the
  transaction is rolled back, so the payments table is as before the call, while the
  invoices written and the mails sent stay. A run is a list of operations, each with the
  settings it runs under and the payment it is given.
\<close>

datatype op = Initiate backend_cls request string string | Complete backend_cls request

definition atomic :: "world \<Rightarrow> (error + 'a) \<times> backend_obj \<times> world \<Rightarrow> world" where
  "atomic w outcome =
     (case outcome of
        (Inl err, self', w') \<Rightarrow> w'\<lparr>payments := payments w\<rparr>
      | (Inr result, self', w') \<Rightarrow> w')"

fun exec_op :: "env \<Rightarrow> Payment \<Rightarrow> op \<Rightarrow> world \<Rightarrow> world" where
  "exec_op e p (Initiate cls req back_url complete_url) w =
     (case Backend_init e cls p w of
        Inl err \<Rightarrow> w
      | Inr self \<Rightarrow> atomic w (initiate e cls req back_url complete_url self w))"
| "exec_op e p (Complete cls req) w =
     (case Backend_init e cls p w of
        Inl err \<Rightarrow> w
      | Inr self \<Rightarrow> atomic w (complete e cls req self w))"

fun run :: "(env \<times> Payment \<times> op) list \<Rightarrow> world \<Rightarrow> world" where
  "run [] w = w"
| "run ((e, p, operation) # rest) w = run rest (exec_op e p operation w)"

text \<open>
  The edges of the state machine as the specification draws them:
  NEW to PENDING, PENDING to ACCEPTED or REJECTED, ACCEPTED to PROCESSED.
\<close>

fun forward :: "state \<Rightarrow> state \<Rightarrow> bool" where
  "forward NEW PENDING = True"
| "forward PENDING ACCEPTED = True"
| "forward PENDING REJECTED = True"
| "forward ACCEPTED PROCESSED = True"
| "forward _ _ = False"

text \<open>
  What one operation can do to the state of a row, and what a run can: a row stays as it
  is, or goes from NEW to PENDING, or from PENDING to ACCEPTED or REJECTED.
\<close>

definition one_step :: "state \<Rightarrow> state \<Rightarrow> bool" where
  "one_step s s' \<longleftrightarrow>
     s' = s \<or> (s = NEW \<and> s' = PENDING) \<or> (s = PENDING \<and> (s' = ACCEPTED \<or> s' = REJECTED))"

definition reaches :: "state \<Rightarrow> state \<Rightarrow> bool" where
  "reaches s s' \<longleftrightarrow>
     s' = s \<or> (s = NEW \<and> (s' = PENDING \<or> s' = ACCEPTED \<or> s' = REJECTED))
     \<or> (s = PENDING \<and> (s' = ACCEPTED \<or> s' = REJECTED))"

text \<open>
  The failure streak of a renewal chain as the specification words it: the REJECTED
  payments created after the most recent PROCESSED one, or all REJECTED ones when the
  chain has no PROCESSED payment.
\<close>

definition failure_streak :: "Payment list \<Rightarrow> nat" where
  "failure_streak chain =
     (let processed = filter (\<lambda>r. state r = PROCESSED) chain
      in if processed = [] then length (filter (\<lambda>r. state r = REJECTED) chain)
         else length (filter (\<lambda>r. state r = REJECTED \<and> Max (created ` set processed) < created r) chain))"


section \<open>Concrete inputs\<close>

text \<open>
  The customer of the test suite (country CZ, VAT id CZ8003280318), a German consumer
  without a VAT id, and a payment of 100 as the tests create it.
\<close>

definition cz_customer :: Customer where
  "cz_customer =
     \<lparr>pk = 1, vat = Some (VATIN ''CZ'' ''8003280318''), tax = [], name = Some ''Michal'',
      address = Some ''Zdimericka 1439'', city = Some ''149 00 Praha 4'', country = Some ''CZ'',
      email = ''weblate@example.com'', origin = ''https://weblate.org/'', user_id = 1\<rparr>"

definition de_consumer :: Customer where
  "de_consumer = cz_customer\<lparr>vat := None, country := Some ''de''\<rparr>"

definition test_payment :: Payment where
  "test_payment =
     \<lparr>uuid = ''u1'', amount = 100, description = ''Test payment'', recurring = ''y'',
      created = 10, state = NEW, backend = [], details = Map.empty, extra = Map.empty,
      customer = cz_customer, repeat = None, invoice = [], amount_fixed = False\<rparr>"

text \<open>
  Settings with the debug backends enabled, invoicing configured and every collaborator
  working, a table holding the test payment, a gateway callback whose signature does not
  check, and a correctly signed callback of the gateway that names another payment as its
  merchant data.
\<close>

definition test_env :: env where
  "test_env =
     \<lparr>PAYMENT_DEBUG = True, PAYMENT_FAKTURACE = Some ''/fakturace'', PAYMENT_SECRET = ''secret'',
      PAYMENT_REDIRECT_URL = ''http://example.com/payment'',
      PAYMENT_THEPAY_MERCHANTID = None, PAYMENT_THEPAY_ACCOUNTID = None,
      PAYMENT_THEPAY_PASSWORD = None, PAYMENT_THEPAY_DATAAPI = None,
      get_language = ''en'', SUPPORTED_LANGUAGES = [''en'', ''cs''],
      uuid4 = ''u2'', now = 20,
      next_invoice = \<lparr>invoiceid = ''1910001'', pdf_path = ''pdf/1910001.pdf''\<rparr>,
      storage_error = None, git_error = None, mail_error = None, post_error = None\<rparr>"

definition test_world :: world where
  "test_world = \<lparr>payments = [test_payment], storage = [], outbox = [], posts = []\<rparr>"

definition bad_signature :: request where
  "bad_signature =
     \<lparr>signature_valid = False, getMerchantData = ''u1'', getStatus = 2, data = Map.empty\<rparr>"

definition foreign_callback :: request where
  "foreign_callback =
     \<lparr>signature_valid = True, getMerchantData = ''u9'', getStatus = 2,
      data = [''merchantData'' \<mapsto> Str ''u9'', ''status'' \<mapsto> Str ''2'']\<rparr>"

definition test_backend :: "backend_cls \<Rightarrow> state \<Rightarrow> backend_obj" where
  "test_backend cls st =
     \<lparr>payment = test_payment\<lparr>state := st\<rparr>, self_invoice = None,
      config = (if cls = ThePayCard \<or> cls = ThePayBitcoin then Some DefaultConfig else None)\<rparr>"


text \<open>
  A renewal chain: a processed recurring payment of the backend \<open>pay\<close>, and renewals of
  it. In \<open>retry_world\<close> a rejected renewal is followed by a processed one and two rejected
  ones; \<open>abandoned_world\<close> has a third rejected one.
\<close>

definition renewed :: Payment where
  "renewed =
     test_payment\<lparr>backend := ''pay'', state := PROCESSED,
       extra := [''reward'' \<mapsto> Str ''7'', ''note'' \<mapsto> Str ''first'']\<rparr>"

definition renewal :: "string \<Rightarrow> nat \<Rightarrow> state \<Rightarrow> Payment" where
  "renewal k t st =
     test_payment\<lparr>uuid := k, created := t, state := st, recurring := [], repeat := Some ''u1''\<rparr>"

definition retry_world :: world where
  "retry_world =
     \<lparr>payments = [renewed, renewal ''r0'' 5 REJECTED, renewal ''r1'' 11 PROCESSED,
                  renewal ''r2'' 12 REJECTED, renewal ''r3'' 13 REJECTED],
      storage = [], outbox = [], posts = []\<rparr>"

definition abandoned_world :: world where
  "abandoned_world = retry_world\<lparr>payments := payments retry_world @ [renewal ''r4'' 14 REJECTED]\<rparr>"

text \<open>
  A run on the test payment: it is initiated and completed with the backend \<open>pending\<close>,
  then initiated and completed again with other backends.
\<close>

definition test_ops :: "(env \<times> Payment \<times> op) list" where
  "test_ops =
     [(test_env, test_payment, Initiate DebugPending bad_signature ''back'' ''done''),
      (test_env, test_payment, Complete DebugPending bad_signature),
      (test_env, test_payment, Initiate DebugPay bad_signature ''back'' ''done''),
      (test_env, test_payment, Complete DebugReject bad_signature)]"


section \<open>Properties of Customer and of the VAT amounts\<close>

lemma EU_VAT_RATES_nonzero: "EU_VAT_RATES cc = Some r \<Longrightarrow> r \<noteq> 0"
  by (simp add: EU_VAT_RATES_def split: if_splits)

lemma py_round_exact: "py_round (of_int k / 100) 2 = of_int k / 100"
  by (simp add: py_round_def round_half_even_def)

lemma vat_amount_needs:
  assumes "needs_vat (customer p)" and "\<not> amount_fixed p"
  shows "vat_amount p = of_int (121 * amount p) / 100"
  using assms py_round_exact[of "121 * amount p"]
  by (simp add: vat_amount_def vat_rate_def VAT_RATE_def)

lemma cz_customer_needs_vat: "needs_vat cz_customer"
  by code_simp

lemma de_consumer_facts:
  "needs_vat de_consumer" "country_code de_consumer = Some ''DE''" "EU_VAT_RATES ''DE'' = Some 19"
  by code_simp+

text \<open>
  C6. For a customer who needs VAT (the rate is then 21), a payment of 100 that is not
  \<open>amount_fixed\<close> has \<open>vat_amount\<close> 121, and a payment of 121 that is \<open>amount_fixed\<close> has
  \<open>amount_without_vat\<close> 100. In general the amount of a payment that is not
  \<open>amount_fixed\<close> is recovered from its \<open>vat_amount\<close> by the degrossing formula, and by
  \<open>amount_without_vat\<close> of an \<open>amount_fixed\<close> payment of the same customer whose amount is
  that gross value. With rationals for the floats of the source the recovery is exact.
\<close>

theorem vat_round_trip:
  assumes "needs_vat c"
  shows "vat_amount (p\<lparr>customer := c, amount := 100, amount_fixed := False\<rparr>) = 121
    \<and> amount_without_vat (p\<lparr>customer := c, amount := 121, amount_fixed := True\<rparr>) = 100
    \<and> 100 * vat_amount (p\<lparr>customer := c, amount_fixed := False\<rparr>) / of_int (100 + vat_rate c)
        = of_int (amount p)
    \<and> (\<forall>g. vat_amount (p\<lparr>customer := c, amount_fixed := False\<rparr>) = of_int g \<longrightarrow>
          amount_without_vat (p\<lparr>customer := c, amount := g, amount_fixed := True\<rparr>)
            = of_int (amount p))"
proof -
  let ?q = "p\<lparr>customer := c, amount_fixed := False\<rparr>"
  have gross: "vat_amount ?q = of_int (121 * amount p) / 100"
    using assms by (simp add: vat_amount_needs)
  have a: "vat_amount (p\<lparr>customer := c, amount := 100, amount_fixed := False\<rparr>) = 121"
    using assms by (simp add: vat_amount_needs)
  have b: "amount_without_vat (p\<lparr>customer := c, amount := 121, amount_fixed := True\<rparr>) = 100"
    using assms by (simp add: amount_without_vat_def vat_rate_def VAT_RATE_def)
  have c: "100 * vat_amount ?q / of_int (100 + vat_rate c) = of_int (amount p)"
    using assms by (simp add: gross vat_rate_def VAT_RATE_def)
  have d: "amount_without_vat (p\<lparr>customer := c, amount := k, amount_fixed := True\<rparr>)
             = of_int (amount p)"
    if "vat_amount ?q = of_int k" for k
  proof -
    have "(of_int (121 * amount p) :: rat) = of_int (100 * k)"
      using that gross by simp
    then have "121 * amount p = 100 * k"
      by (simp only: of_int_eq_iff)
    then have "(100 * of_int k :: rat) = 121 * of_int (amount p)"
      by (metis of_int_mult of_int_numeral)
    then show ?thesis
      using assms by (simp add: amount_without_vat_def vat_rate_def VAT_RATE_def)
  qed
  from a b c d show ?thesis by blast
qed

theorem vat_round_trip_witness:
  "needs_vat cz_customer
   \<and> vat_amount test_payment = 121
   \<and> amount_without_vat (test_payment\<lparr>amount := 121, amount_fixed := True\<rparr>) = 100
   \<and> 100 * vat_amount test_payment / of_int (100 + vat_rate cz_customer) = 100"
proof -
  have p: "test_payment\<lparr>customer := cz_customer, amount := 100, amount_fixed := False\<rparr> = test_payment"
    "test_payment\<lparr>customer := cz_customer, amount_fixed := False\<rparr> = test_payment"
    "test_payment\<lparr>customer := cz_customer, amount := 121, amount_fixed := True\<rparr>
       = test_payment\<lparr>amount := 121, amount_fixed := True\<rparr>"
    "amount test_payment = 100"
    by (simp_all add: test_payment_def)
  have r: "vat_rate cz_customer = 21"
    using cz_customer_needs_vat by (simp add: vat_rate_def VAT_RATE_def)
  show ?thesis
    using vat_round_trip[OF cz_customer_needs_vat, of test_payment] cz_customer_needs_vat
    by (simp add: p r)
qed

text \<open>
  C7. \<open>needs_vat\<close> holds exactly when the VAT country code is CZ, or the country code is
  a key of the table of EU rates and the customer has no VAT id. \<open>vat_rate\<close> is 21 when
  \<open>needs_vat\<close> holds and 0 otherwise; where the table has another rate for the customer's
  country, \<open>vat_rate\<close> is not that rate.
\<close>

theorem needs_vat_flat_rate:
  "(needs_vat c \<longleftrightarrow>
      vat_country_code c = Some ''CZ''
      \<or> ((\<exists>cc. country_code c = Some cc \<and> cc \<in> dom EU_VAT_RATES) \<and> \<not> vat_set (vat c)))
   \<and> vat_rate c = (if needs_vat c then 21 else 0)
   \<and> (\<forall>cc r. country_code c = Some cc \<and> EU_VAT_RATES cc = Some r \<and> r \<noteq> 21 \<longrightarrow> vat_rate c \<noteq> r)"
proof -
  have a: "needs_vat c \<longleftrightarrow>
      vat_country_code c = Some ''CZ''
      \<or> ((\<exists>cc. country_code c = Some cc \<and> cc \<in> dom EU_VAT_RATES) \<and> \<not> vat_set (vat c))"
    by (auto simp: needs_vat_def is_eu_enduser_def split: option.splits)
  have b: "vat_rate c = (if needs_vat c then 21 else 0)"
    by (simp add: vat_rate_def VAT_RATE_def)
  have c: "vat_rate c \<noteq> r" if "EU_VAT_RATES cc = Some r" "r \<noteq> 21" for cc r
    using that EU_VAT_RATES_nonzero[OF that(1)] by (simp add: b)
  from a b c show ?thesis by blast
qed

theorem needs_vat_flat_rate_witness:
  "needs_vat de_consumer \<and> country_code de_consumer = Some ''DE'' \<and> EU_VAT_RATES ''DE'' = Some 19
   \<and> vat_rate de_consumer = 21 \<and> vat_rate de_consumer \<noteq> 19
   \<and> needs_vat cz_customer \<and> vat_country_code cz_customer = Some ''CZ'' \<and> vat_rate cz_customer = 21"
proof -
  have h: "vat_country_code cz_customer = Some ''CZ''"
    by code_simp
  show ?thesis
    using needs_vat_flat_rate[of de_consumer] needs_vat_flat_rate[of cz_customer]
      de_consumer_facts cz_customer_needs_vat h
    by simp
qed

text \<open>
  C8. When the VAT id is set and its country code differs from the customer's country
  code, \<open>clean\<close> raises a validation error on the field \<open>country\<close>; when they agree, and
  when the VAT id is empty, it raises nothing. In every case the customer is left as it
  was.
\<close>

theorem clean_country_mismatch:
  "(vat_set (vat c) \<and> vat_country_code c \<noteq> country_code c \<longrightarrow>
      (\<exists>msg. fst (clean c) = Inl (ValidationError ''country'' msg)))
   \<and> (vat_set (vat c) \<and> vat_country_code c = country_code c \<longrightarrow> fst (clean c) = Inr ())
   \<and> (\<not> vat_set (vat c) \<longrightarrow> fst (clean c) = Inr ())
   \<and> snd (clean c) = c"
  by (simp add: clean_def)

theorem clean_country_mismatch_witness:
  "vat_set (vat (cz_customer\<lparr>country := Some ''DE''\<rparr>))
   \<and> vat_country_code (cz_customer\<lparr>country := Some ''DE''\<rparr>)
       \<noteq> country_code (cz_customer\<lparr>country := Some ''DE''\<rparr>)
   \<and> (\<exists>msg. fst (clean (cz_customer\<lparr>country := Some ''DE''\<rparr>))
         = Inl (ValidationError ''country'' msg))
   \<and> snd (clean (cz_customer\<lparr>country := Some ''DE''\<rparr>)) = cz_customer\<lparr>country := Some ''DE''\<rparr>
   \<and> vat_set (vat cz_customer) \<and> vat_country_code cz_customer = country_code cz_customer
   \<and> fst (clean cz_customer) = Inr ()
   \<and> \<not> vat_set (vat (cz_customer\<lparr>vat := None\<rparr>))
   \<and> fst (clean (cz_customer\<lparr>vat := None\<rparr>)) = Inr ()"
proof -
  have h: "vat_set (vat (cz_customer\<lparr>country := Some ''DE''\<rparr>))"
    "vat_country_code (cz_customer\<lparr>country := Some ''DE''\<rparr>)
       \<noteq> country_code (cz_customer\<lparr>country := Some ''DE''\<rparr>)"
    "vat_set (vat cz_customer)" "vat_country_code cz_customer = country_code cz_customer"
    "\<not> vat_set (vat (cz_customer\<lparr>vat := None\<rparr>))"
    by code_simp+
  show ?thesis
    using clean_country_mismatch[of "cz_customer\<lparr>country := Some ''DE''\<rparr>"]
      clean_country_mismatch[of cz_customer]
      clean_country_mismatch[of "cz_customer\<lparr>vat := None\<rparr>"] h
    by simp
qed


section \<open>Properties of the backend lifecycle\<close>

lemma payments_save:
  "payments (save p w) =
     (if filter (\<lambda>r. uuid r = uuid p) (payments w) \<noteq> []
      then map (\<lambda>r. if uuid r = uuid p then p else r) (payments w)
      else payments w @ [p])"
  by (simp add: save_def fetch_def)

lemma filter_map_replace:
  "filter (\<lambda>r. uuid r = k) (map (\<lambda>r. if uuid r = uuid p then p else r) xs) =
     (if uuid p = k then map (\<lambda>r. p) (filter (\<lambda>r. uuid r = k) xs)
      else filter (\<lambda>r. uuid r = k) xs)"
  by (induction xs) auto

lemma fetch_after_save:
  assumes "payments w' = payments (save p w)" and "fetch w k = [r]"
  shows "fetch w' k = (if uuid p = k then [p] else [r])"
  using assms by (auto simp: fetch_def payments_save filter_map_replace)

lemma fetch_save_set: "set (fetch (save p w) (uuid p)) = {p}"
  by (auto simp: fetch_def payments_save filter_map_replace filter_empty_conv)

lemma save_other_fields: "storage (save p w) = storage w" "outbox (save p w) = outbox w"
  "posts (save p w) = posts w"
  by (simp_all add: save_def)

lemma initiate_cases:
  assumes "initiate e cls req b c self w = (res, self', w')"
  shows "(w' = w \<and> self' = self) \<or>
     (state (payment self) = NEW \<and> state (payment self') = PENDING
      \<and> uuid (payment self') = uuid (payment self) \<and> w' = save (payment self') w)"
  using assms by (auto simp: initiate_def Let_def split: if_splits sum.splits)

text \<open>
  C2. \<open>initiate\<close> raises \<open>InvalidState\<close> when the state is not NEW, and when \<open>repeat\<close> is
  set and the class does not declare \<open>recurring\<close>; the backend object and the world are
  then as before the call. When neither holds and \<open>perform\<close> returns, \<open>initiate\<close> returns
  what \<open>perform\<close> returned, the state is PENDING, and the saved row is the payment of the
  backend object.
\<close>

theorem initiate_guarded:
  "(state (payment self) \<noteq> NEW \<longrightarrow>
      initiate e cls req back_url complete_url self w = (Inl InvalidState, self, w))
   \<and> (repeat (payment self) \<noteq> None \<and> \<not> cls_recurring cls \<longrightarrow>
      initiate e cls req back_url complete_url self w = (Inl InvalidState, self, w))
   \<and> (state (payment self) = NEW \<and> (repeat (payment self) = None \<or> cls_recurring cls) \<longrightarrow>
       (\<forall>result. perform cls req back_url complete_url self = Inr result \<longrightarrow>
          (\<exists>self' w'. initiate e cls req back_url complete_url self w = (Inr result, self', w')
             \<and> state (payment self') = PENDING
             \<and> set (fetch w' (uuid (payment self))) = {payment self'})))"
proof -
  have a: "initiate e cls req back_url complete_url self w = (Inl InvalidState, self, w)"
    if "state (payment self) \<noteq> NEW"
    using that by (simp add: initiate_def)
  have b: "initiate e cls req back_url complete_url self w = (Inl InvalidState, self, w)"
    if "repeat (payment self) \<noteq> None" "\<not> cls_recurring cls"
    using that by (simp add: initiate_def)
  have c: "\<exists>self' w'. initiate e cls req back_url complete_url self w = (Inr result, self', w')
             \<and> state (payment self') = PENDING
             \<and> set (fetch w' (uuid (payment self))) = {payment self'}"
    if "state (payment self) = NEW" "repeat (payment self) = None \<or> cls_recurring cls"
      "perform cls req back_url complete_url self = Inr result" for result
  proof -
    let ?p = "(payment self)\<lparr>state := PENDING,
        details := (details (payment self))(''backend'' \<mapsto> json_opt (cls_name cls))\<rparr>"
    have "initiate e cls req back_url complete_url self w
            = (Inr result, self\<lparr>payment := ?p\<rparr>, save ?p w)"
      using that by (auto simp: initiate_def Let_def)
    moreover have "set (fetch (save ?p w) (uuid (payment self))) = {?p}"
      using fetch_save_set[of ?p w] by simp
    ultimately show ?thesis by simp
  qed
  from a b c show ?thesis by blast
qed

theorem initiate_guarded_witness:
  "initiate test_env DebugPay bad_signature ''back'' ''done'' (test_backend DebugPay PENDING)
       test_world
     = (Inl InvalidState, test_backend DebugPay PENDING, test_world)
   \<and> initiate test_env DebugReject bad_signature ''back'' ''done''
        ((test_backend DebugReject NEW)\<lparr>payment := test_payment\<lparr>repeat := Some ''u0''\<rparr>\<rparr>)
        test_world
     = (Inl InvalidState,
        (test_backend DebugReject NEW)\<lparr>payment := test_payment\<lparr>repeat := Some ''u0''\<rparr>\<rparr>,
        test_world)
   \<and> (\<exists>self' w'. initiate test_env DebugPending bad_signature ''back'' ''done''
            (test_backend DebugPending NEW) test_world
          = (Inr (Some (Redirect ''https://cihar.com/?url=done'')), self', w')
        \<and> state (payment self') = PENDING \<and> set (fetch w' ''u1'') = {payment self'})"
proof -
  have h: "state (payment (test_backend DebugPay PENDING)) \<noteq> NEW"
    "repeat (payment ((test_backend DebugReject NEW)
       \<lparr>payment := test_payment\<lparr>repeat := Some ''u0''\<rparr>\<rparr>)) \<noteq> None"
    "\<not> cls_recurring DebugReject"
    "state (payment (test_backend DebugPending NEW)) = NEW"
    "repeat (payment (test_backend DebugPending NEW)) = None"
    "uuid (payment (test_backend DebugPending NEW)) = ''u1''"
    "perform DebugPending bad_signature ''back'' ''done'' (test_backend DebugPending NEW)
       = Inr (Some (Redirect ''https://cihar.com/?url=done''))"
    by (simp_all add: test_backend_def test_payment_def)
  show ?thesis
    using initiate_guarded[of "test_backend DebugPay PENDING" test_env DebugPay bad_signature
        "''back''" "''done''" test_world]
      initiate_guarded[of
        "(test_backend DebugReject NEW)\<lparr>payment := test_payment\<lparr>repeat := Some ''u0''\<rparr>\<rparr>"
        test_env DebugReject bad_signature "''back''" "''done''" test_world]
      initiate_guarded[of "test_backend DebugPending NEW" test_env DebugPending bad_signature
        "''back''" "''done''" test_world]
      h
    by simp
qed

text \<open>
  C9. The claim is that a successful \<open>initiate\<close> records the name of the payment method
  in the field \<open>backend\<close> of the payment. The code stores the name under the key
  \<open>backend\<close> of the dictionary \<open>details\<close> and leaves the field as it was: initiating the
  test payment (whose field \<open>backend\<close> is empty) with the backend \<open>pending\<close> returns the
  redirect and sets the state to PENDING, the field \<open>backend\<close> is still empty in the
  backend object and in the saved row, and \<open>details\<close> holds the name.
\<close>

theorem initiate_leaves_backend_field:
  "fst (initiate test_env DebugPending bad_signature ''back'' ''done''
        (test_backend DebugPending NEW) test_world)
     = Inr (Some (Redirect ''https://cihar.com/?url=done''))
   \<and> state (payment (fst (snd (initiate test_env DebugPending bad_signature ''back'' ''done''
        (test_backend DebugPending NEW) test_world)))) = PENDING
   \<and> backend (payment (fst (snd (initiate test_env DebugPending bad_signature ''back'' ''done''
        (test_backend DebugPending NEW) test_world)))) = []
   \<and> details (payment (fst (snd (initiate test_env DebugPending bad_signature ''back'' ''done''
        (test_backend DebugPending NEW) test_world)))) ''backend'' = Some (Str ''pending'')
   \<and> map backend (fetch (snd (snd (initiate test_env DebugPending bad_signature ''back'' ''done''
        (test_backend DebugPending NEW) test_world))) ''u1'') = [[]]"
  by (simp add: initiate_def test_backend_def test_payment_def Let_def save_def fetch_def
      test_world_def)

lemma accepted_fields:
  "state (payment (accepted cls self)) = ACCEPTED"
  "recurring (payment (accepted cls self)) = (if cls_recurring cls then recurring (payment self) else [])"
  "uuid (payment (accepted cls self)) = uuid (payment self)"
  "details (payment (accepted cls self)) = details (payment self)"
  "customer (payment (accepted cls self)) = customer (payment self)"
  "invoice (payment (accepted cls self)) = invoice (payment self)"
  "description (payment (accepted cls self)) = description (payment self)"
  "self_invoice (accepted cls self) = self_invoice self"
  by (simp_all add: accepted_def)


lemma collect_keeps_proj:
  "uuid (payment (snd (collect cls req self))) = uuid (payment self)"
  "state (payment (snd (collect cls req self))) = state (payment self)"
  "recurring (payment (snd (collect cls req self))) = recurring (payment self)"
  "customer (payment (snd (collect cls req self))) = customer (payment self)"
  "description (payment (snd (collect cls req self))) = description (payment self)"
  "invoice (payment (snd (collect cls req self))) = invoice (payment self)"
  "backend (payment (snd (collect cls req self))) = backend (payment self)"
  "self_invoice (snd (collect cls req self)) = self_invoice self"
  by (cases cls; simp add: ThePayCard_collect_def checkSignature_def Let_def split: option.split)+

lemma notify_user_sent:
  assumes "mail_error e = None"
  shows "fst (notify_user e self w) = Inr ()"
    and "payments (snd (notify_user e self w)) = payments w"
    and "storage (snd (notify_user e self w)) = storage w"
    and "butlast (outbox (snd (notify_user e self w))) = outbox w"
    and "outbox (snd (notify_user e self w)) \<noteq> []"
    and "subject (last (outbox (snd (notify_user e self w)))) = ''Your payment on weblate.org''"
    and "message (last (outbox (snd (notify_user e self w))))
           = PaymentThanks (origin (customer (payment self)))"
    and "recipients (last (outbox (snd (notify_user e self w)))) = [email (customer (payment self))]"
    and "attachments (last (outbox (snd (notify_user e self w))))
           = (case self_invoice self of None \<Rightarrow> [] | Some doc \<Rightarrow> [pdf_path doc])"
  using assms by (simp_all add: notify_user_def Let_def split: option.split)

lemma notify_user_raises:
  "mail_error e = Some err \<Longrightarrow> notify_user e self w = (Inl err, w)"
  by (simp add: notify_user_def Let_def)

lemma notify_failure_sent:
  assumes "mail_error e = None"
  shows "fst (notify_failure e self w) = Inr ()"
    and "payments (snd (notify_failure e self w)) = payments w"
    and "storage (snd (notify_failure e self w)) = storage w"
    and "butlast (outbox (snd (notify_failure e self w))) = outbox w"
    and "outbox (snd (notify_failure e self w)) \<noteq> []"
    and "subject (last (outbox (snd (notify_failure e self w))))
           = ''Your failed payment on weblate.org''"
    and "message (last (outbox (snd (notify_failure e self w))))
           = PaymentFailed (dict_get (details (payment self)) ''reject_reason'' (Str ''Uknown''))
               (origin (customer (payment self)))"
    and "recipients (last (outbox (snd (notify_failure e self w))))
           = [email (customer (payment self))]"
  using assms by (simp_all add: notify_failure_def Let_def split: option.split)

lemma notify_failure_raises:
  "mail_error e = Some err \<Longrightarrow> notify_failure e self w = (Inl err, w)"
  by (simp add: notify_failure_def Let_def)

lemma generate_invoice_keeps:
  "uuid (payment (fst (snd (generate_invoice e cls self w)))) = uuid (payment self)"
  "state (payment (fst (snd (generate_invoice e cls self w)))) = state (payment self)"
  "recurring (payment (fst (snd (generate_invoice e cls self w)))) = recurring (payment self)"
  "details (payment (fst (snd (generate_invoice e cls self w)))) = details (payment self)"
  "customer (payment (fst (snd (generate_invoice e cls self w)))) = customer (payment self)"
  "payments (snd (snd (generate_invoice e cls self w))) = payments w"
  "outbox (snd (snd (generate_invoice e cls self w))) = outbox w"
  by (simp_all add: generate_invoice_def Let_def split: option.split)

lemma generate_invoice_off:
  "PAYMENT_FAKTURACE e = None \<Longrightarrow> generate_invoice e cls self w = (Inr (), self, w)"
  by (simp add: generate_invoice_def)

lemma generate_invoice_storage_raises:
  "PAYMENT_FAKTURACE e = Some d \<Longrightarrow> storage_error e = Some err \<Longrightarrow>
     generate_invoice e cls self w = (Inl err, self, w)"
  by (simp add: generate_invoice_def)

lemma generate_invoice_git_raises:
  "PAYMENT_FAKTURACE e = Some d \<Longrightarrow> storage_error e = None \<Longrightarrow> git_error e = Some err \<Longrightarrow>
     fst (generate_invoice e cls self w) = Inl err"
  by (simp add: generate_invoice_def Let_def)

lemma generate_invoice_on:
  assumes "PAYMENT_FAKTURACE e = Some d" and "storage_error e = None" and "git_error e = None"
  shows "fst (generate_invoice e cls self w) = Inr ()"
    and "fst (snd (generate_invoice e cls self w))
           = self\<lparr>payment := (payment self)\<lparr>invoice := invoiceid (next_invoice e)\<rparr>,
                  self_invoice := Some (next_invoice e)\<rparr>"
    and "butlast (storage (snd (snd (generate_invoice e cls self w)))) = storage w"
    and "storage (snd (snd (generate_invoice e cls self w))) \<noteq> []"
    and "stored (last (storage (snd (snd (generate_invoice e cls self w))))) = next_invoice e"
    and "contact (last (storage (snd (snd (generate_invoice e cls self w)))))
           = customer (payment self)"
    and "item (last (storage (snd (snd (generate_invoice e cls self w)))))
           = description (payment self)"
    and "paid (last (storage (snd (snd (generate_invoice e cls self w))))) = details (payment self)"
    and "payment_method (last (storage (snd (snd (generate_invoice e cls self w)))))
           = str_opt (cls_verbose cls)"
    and "commit_message (last (storage (snd (snd (generate_invoice e cls self w)))))
           = Some (''Invoice '' @ invoiceid (next_invoice e))"
  using assms by (simp_all add: generate_invoice_def Let_def)

lemma success_proj:
  "success e cls self w =
     (case generate_invoice e cls (accepted cls self) w of
        (Inl err, self3, w1) \<Rightarrow> (Inl err, self3, w1)
      | (Inr done, self3, w1) \<Rightarrow>
          (case notify_user e self3 (save (payment self3) w1) of
             (Inl err, w3) \<Rightarrow> (Inl err, self3, w3)
           | (Inr sent, w3) \<Rightarrow> (Inr (), self3, w3)))"
  by (simp add: success_def accepted_def Let_def split: prod.split sum.split)

lemma success_invoice_raises:
  assumes "fst (generate_invoice e cls (accepted cls self) w) = Inl err"
  shows "success e cls self w = (Inl err, snd (generate_invoice e cls (accepted cls self) w))"
  using assms
  by (cases "generate_invoice e cls (accepted cls self) w") (simp add: success_proj)

lemma success_done:
  assumes "fst (generate_invoice e cls (accepted cls self) w) = Inr ()" and "mail_error e = None"
  shows "success e cls self w =
     (Inr (), fst (snd (generate_invoice e cls (accepted cls self) w)),
      snd (notify_user e (fst (snd (generate_invoice e cls (accepted cls self) w)))
             (save (payment (fst (snd (generate_invoice e cls (accepted cls self) w))))
                (snd (snd (generate_invoice e cls (accepted cls self) w))))))"
proof -
  obtain s3 w1 where g: "generate_invoice e cls (accepted cls self) w = (Inr (), s3, w1)"
    using assms(1) by (cases "generate_invoice e cls (accepted cls self) w") auto
  obtain w3 where n: "notify_user e s3 (save (payment s3) w1) = (Inr (), w3)"
    using notify_user_sent(1)[OF assms(2), of s3 "save (payment s3) w1"]
    by (cases "notify_user e s3 (save (payment s3) w1)") auto
  show ?thesis
    by (simp add: success_proj g n)
qed

lemma success_mail_raises:
  assumes "fst (generate_invoice e cls (accepted cls self) w) = Inr ()"
    and "mail_error e = Some err"
  shows "success e cls self w =
     (Inl err, fst (snd (generate_invoice e cls (accepted cls self) w)),
      save (payment (fst (snd (generate_invoice e cls (accepted cls self) w))))
        (snd (snd (generate_invoice e cls (accepted cls self) w))))"
proof -
  obtain s3 w1 where g: "generate_invoice e cls (accepted cls self) w = (Inr (), s3, w1)"
    using assms(1) by (cases "generate_invoice e cls (accepted cls self) w") auto
  show ?thesis
    by (simp add: success_proj g notify_user_raises[OF assms(2)])
qed


lemma generate_invoice_returns:
  assumes "PAYMENT_FAKTURACE e = None \<or> storage_error e = None \<and> git_error e = None"
  shows "fst (generate_invoice e cls self w) = Inr ()"
  using assms by (auto simp: generate_invoice_def Let_def split: option.split)

lemma generate_invoice_raises:
  assumes "PAYMENT_FAKTURACE e \<noteq> None"
    and "storage_error e = Some err \<or> storage_error e = None \<and> git_error e = Some err"
  shows "fst (generate_invoice e cls self w) = Inl err"
  using assms by (auto simp: generate_invoice_def Let_def split: option.split)

lemma failure_proj:
  "failure e self w =
     (case notify_failure e (self\<lparr>payment := (payment self)\<lparr>state := REJECTED\<rparr>\<rparr>)
             (save ((payment self)\<lparr>state := REJECTED\<rparr>) w) of
        (Inl err, w2) \<Rightarrow> (Inl err, self\<lparr>payment := (payment self)\<lparr>state := REJECTED\<rparr>\<rparr>, w2)
      | (Inr sent, w2) \<Rightarrow> (Inr (), self\<lparr>payment := (payment self)\<lparr>state := REJECTED\<rparr>\<rparr>, w2))"
  by (simp add: failure_def Let_def split: prod.split sum.split)

lemma failure_done:
  assumes "mail_error e = None"
  shows "failure e self w =
     (Inr (), self\<lparr>payment := (payment self)\<lparr>state := REJECTED\<rparr>\<rparr>,
      snd (notify_failure e (self\<lparr>payment := (payment self)\<lparr>state := REJECTED\<rparr>\<rparr>)
             (save ((payment self)\<lparr>state := REJECTED\<rparr>) w)))"
proof -
  let ?r = "self\<lparr>payment := (payment self)\<lparr>state := REJECTED\<rparr>\<rparr>"
  obtain w2 where n: "notify_failure e ?r (save ((payment self)\<lparr>state := REJECTED\<rparr>) w) = (Inr (), w2)"
    using notify_failure_sent(1)[OF assms, of ?r "save ((payment self)\<lparr>state := REJECTED\<rparr>) w"]
    by (cases "notify_failure e ?r (save ((payment self)\<lparr>state := REJECTED\<rparr>) w)") auto
  show ?thesis
    by (simp add: failure_proj n)
qed

lemma failure_mail_raises:
  assumes "mail_error e = Some err"
  shows "failure e self w =
     (Inl err, self\<lparr>payment := (payment self)\<lparr>state := REJECTED\<rparr>\<rparr>,
      save ((payment self)\<lparr>state := REJECTED\<rparr>) w)"
  by (simp add: failure_proj notify_failure_raises[OF assms])

lemma complete_proj:
  assumes "state (payment self) = PENDING"
  shows "fst (collect cls req self) = Inl err \<Longrightarrow>
           complete e cls req self w = (Inl err, snd (collect cls req self), w)"
    and "fst (collect cls req self) = Inr True \<Longrightarrow>
           complete e cls req self w =
             (case success e cls (snd (collect cls req self)) w of
                (Inl err, self2, w1) \<Rightarrow> (Inl err, self2, w1)
              | (Inr done, self2, w1) \<Rightarrow> (Inr True, self2, w1))"
    and "fst (collect cls req self) = Inr False \<Longrightarrow>
           complete e cls req self w =
             (case failure e (snd (collect cls req self)) w of
                (Inl err, self2, w1) \<Rightarrow> (Inl err, self2, w1)
              | (Inr done, self2, w1) \<Rightarrow> (Inr False, self2, w1))"
  using assms by (cases "collect cls req self"; simp add: complete_def)+

text \<open>What a returning success and a returning failure leave.\<close>

lemma success_returns:
  assumes g: "PAYMENT_FAKTURACE e = None \<or> storage_error e = None \<and> git_error e = None"
    and m: "mail_error e = None"
  shows "fst (success e cls self w) = Inr ()"
    and "state (payment (fst (snd (success e cls self w)))) = ACCEPTED"
    and "recurring (payment (fst (snd (success e cls self w))))
           = (if cls_recurring cls then recurring (payment self) else [])"
    and "uuid (payment (fst (snd (success e cls self w)))) = uuid (payment self)"
    and "payments (snd (snd (success e cls self w)))
           = payments (save (payment (fst (snd (success e cls self w)))) w)"
    and "butlast (outbox (snd (snd (success e cls self w)))) = outbox w"
    and "outbox (snd (snd (success e cls self w))) \<noteq> []"
    and "subject (last (outbox (snd (snd (success e cls self w))))) = ''Your payment on weblate.org''"
    and "recipients (last (outbox (snd (snd (success e cls self w)))))
           = [email (customer (payment self))]"
    and "attachments (last (outbox (snd (snd (success e cls self w)))))
           = (case self_invoice (fst (snd (success e cls self w))) of
                None \<Rightarrow> [] | Some doc \<Rightarrow> [pdf_path doc])"
    and "storage (snd (snd (success e cls self w)))
           = storage (snd (snd (generate_invoice e cls (accepted cls self) w)))"
    and "fst (snd (success e cls self w)) = fst (snd (generate_invoice e cls (accepted cls self) w))"
proof -
  let ?G = "generate_invoice e cls (accepted cls self) w"
  note s = success_done[OF generate_invoice_returns[OF g] m, of cls self w]
  note k = generate_invoice_keeps[of e cls "accepted cls self" w]
  note n = notify_user_sent[OF m, of "fst (snd ?G)" "save (payment (fst (snd ?G))) (snd (snd ?G))"]
  show "fst (success e cls self w) = Inr ()" by (simp add: s)
  show "state (payment (fst (snd (success e cls self w)))) = ACCEPTED"
    by (simp add: s k accepted_fields)
  show "recurring (payment (fst (snd (success e cls self w))))
           = (if cls_recurring cls then recurring (payment self) else [])"
    by (simp add: s k accepted_fields)
  show "uuid (payment (fst (snd (success e cls self w)))) = uuid (payment self)"
    by (simp add: s k accepted_fields)
  show "payments (snd (snd (success e cls self w)))
           = payments (save (payment (fst (snd (success e cls self w)))) w)"
    by (simp add: s n payments_save k)
  show "butlast (outbox (snd (snd (success e cls self w)))) = outbox w"
    by (simp add: s n save_other_fields k)
  show "outbox (snd (snd (success e cls self w))) \<noteq> []"
    by (simp add: s n)
  show "subject (last (outbox (snd (snd (success e cls self w))))) = ''Your payment on weblate.org''"
    by (simp add: s n)
  show "recipients (last (outbox (snd (snd (success e cls self w)))))
           = [email (customer (payment self))]"
    by (simp add: s n k accepted_fields)
  show "attachments (last (outbox (snd (snd (success e cls self w)))))
           = (case self_invoice (fst (snd (success e cls self w))) of
                None \<Rightarrow> [] | Some doc \<Rightarrow> [pdf_path doc])"
    by (simp add: s n)
  show "storage (snd (snd (success e cls self w))) = storage (snd (snd ?G))"
    by (simp add: s n save_other_fields)
  show "fst (snd (success e cls self w)) = fst (snd ?G)"
    by (simp add: s)
qed

lemma failure_returns:
  assumes m: "mail_error e = None"
  shows "fst (failure e self w) = Inr ()"
    and "fst (snd (failure e self w)) = self\<lparr>payment := (payment self)\<lparr>state := REJECTED\<rparr>\<rparr>"
    and "payments (snd (snd (failure e self w)))
           = payments (save ((payment self)\<lparr>state := REJECTED\<rparr>) w)"
    and "storage (snd (snd (failure e self w))) = storage w"
    and "butlast (outbox (snd (snd (failure e self w)))) = outbox w"
    and "outbox (snd (snd (failure e self w))) \<noteq> []"
    and "subject (last (outbox (snd (snd (failure e self w)))))
           = ''Your failed payment on weblate.org''"
    and "message (last (outbox (snd (snd (failure e self w)))))
           = PaymentFailed (dict_get (details (payment self)) ''reject_reason'' (Str ''Uknown''))
               (origin (customer (payment self)))"
    and "recipients (last (outbox (snd (snd (failure e self w)))))
           = [email (customer (payment self))]"
  by (simp_all add: failure_done[OF m] notify_failure_sent[OF m] save_other_fields)


text \<open>
  C1. Unless the state is PENDING, \<open>complete\<close> raises \<open>InvalidState\<close> and leaves the backend
  object and the world as they were. Otherwise \<open>collect\<close> is called, and an exception of
  \<open>collect\<close> leaves \<open>complete\<close> with the world unchanged. When \<open>collect\<close> returns true and
  neither the invoice storage, the git commands nor the mail raise, \<open>complete\<close> returns
  true, the state is ACCEPTED, \<open>recurring\<close> is cleared unless the class declares
  \<open>recurring\<close>, the invoice is generated, stored on the payment and attached to the mail
  (with \<open>PAYMENT_FAKTURACE\<close> set; with \<open>None\<close>, the configuration that disables invoicing,
  nothing is generated), the row is saved and the success mail is sent to the customer.
  When the invoice storage or a git command raises, the exception leaves \<open>complete\<close>
  before the row is saved and before any mail. When \<open>collect\<close> returns false and the mail
  does not raise, \<open>complete\<close> returns false, the state is REJECTED, the row is saved,
  \<open>details\<close> is as \<open>collect\<close> left it (\<open>complete\<close> itself records no reject reason), and a
  reject reason found in \<open>details\<close> is the one the failure mail carries. When sending a
  mail raises, the exception leaves \<open>complete\<close> after the row is saved with its new state,
  and no mail is sent.
\<close>

theorem complete_outcome:
  assumes "complete e cls req self w = (res, self', w')"
  shows "(state (payment self) \<noteq> PENDING \<longrightarrow> res = Inl InvalidState \<and> self' = self \<and> w' = w)
    \<and> (\<forall>err. state (payment self) = PENDING \<and> fst (collect cls req self) = Inl err \<longrightarrow>
          res = Inl err \<and> w' = w)
    \<and> (state (payment self) = PENDING \<and> fst (collect cls req self) = Inr True
        \<and> (PAYMENT_FAKTURACE e = None \<or> storage_error e = None \<and> git_error e = None)
        \<and> mail_error e = None \<longrightarrow>
         res = Inr True
         \<and> state (payment self') = ACCEPTED
         \<and> recurring (payment self')
             = (if cls_recurring cls then recurring (payment self) else [])
         \<and> (PAYMENT_FAKTURACE e \<noteq> None \<longrightarrow>
               butlast (storage w') = storage w \<and> storage w' \<noteq> []
               \<and> stored (last (storage w')) = next_invoice e
               \<and> contact (last (storage w')) = customer (payment self)
               \<and> item (last (storage w')) = description (payment self)
               \<and> invoice (payment self') = invoiceid (next_invoice e)
               \<and> attachments (last (outbox w')) = [pdf_path (next_invoice e)])
         \<and> (PAYMENT_FAKTURACE e = None \<longrightarrow>
               storage w' = storage w \<and> invoice (payment self') = invoice (payment self))
         \<and> set (fetch w' (uuid (payment self))) = {payment self'}
         \<and> butlast (outbox w') = outbox w \<and> outbox w' \<noteq> []
         \<and> subject (last (outbox w')) = ''Your payment on weblate.org''
         \<and> recipients (last (outbox w')) = [email (customer (payment self))])
    \<and> (\<forall>err. state (payment self) = PENDING \<and> fst (collect cls req self) = Inr True
          \<and> PAYMENT_FAKTURACE e \<noteq> None
          \<and> (storage_error e = Some err \<or> storage_error e = None \<and> git_error e = Some err) \<longrightarrow>
            res = Inl err \<and> payments w' = payments w \<and> outbox w' = outbox w)
    \<and> (state (payment self) = PENDING \<and> fst (collect cls req self) = Inr False
        \<and> mail_error e = None \<longrightarrow>
         res = Inr False
         \<and> state (payment self') = REJECTED
         \<and> details (payment self') = details (payment (snd (collect cls req self)))
         \<and> storage w' = storage w
         \<and> set (fetch w' (uuid (payment self))) = {payment self'}
         \<and> butlast (outbox w') = outbox w \<and> outbox w' \<noteq> []
         \<and> subject (last (outbox w')) = ''Your failed payment on weblate.org''
         \<and> recipients (last (outbox w')) = [email (customer (payment self))]
         \<and> (\<forall>reason. details (payment self') ''reject_reason'' = Some reason \<longrightarrow>
               message (last (outbox w'))
                 = PaymentFailed reason (origin (customer (payment self)))))
    \<and> (\<forall>err. state (payment self) = PENDING \<and> fst (collect cls req self) = Inr True
          \<and> (PAYMENT_FAKTURACE e = None \<or> storage_error e = None \<and> git_error e = None)
          \<and> mail_error e = Some err \<longrightarrow>
            res = Inl err \<and> state (payment self') = ACCEPTED
            \<and> set (fetch w' (uuid (payment self))) = {payment self'}
            \<and> outbox w' = outbox w)
    \<and> (\<forall>err. state (payment self) = PENDING \<and> fst (collect cls req self) = Inr False
          \<and> mail_error e = Some err \<longrightarrow>
            res = Inl err \<and> state (payment self') = REJECTED
            \<and> set (fetch w' (uuid (payment self))) = {payment self'}
            \<and> outbox w' = outbox w)"
proof -
  let ?s1 = "snd (collect cls req self)"
  let ?G = "generate_invoice e cls (accepted cls ?s1) w"
  note ck = collect_keeps_proj[of cls req self]
  have a: "res = Inl InvalidState \<and> self' = self \<and> w' = w" if "state (payment self) \<noteq> PENDING"
    using assms that by (simp add: complete_def)
  have b: "res = Inl err \<and> w' = w"
    if "state (payment self) = PENDING" "fst (collect cls req self) = Inl err" for err
    using assms complete_proj(1)[OF that, of e w] by simp
  have c: "res = Inr True
         \<and> state (payment self') = ACCEPTED
         \<and> recurring (payment self')
             = (if cls_recurring cls then recurring (payment self) else [])
         \<and> (PAYMENT_FAKTURACE e \<noteq> None \<longrightarrow>
               butlast (storage w') = storage w \<and> storage w' \<noteq> []
               \<and> stored (last (storage w')) = next_invoice e
               \<and> contact (last (storage w')) = customer (payment self)
               \<and> item (last (storage w')) = description (payment self)
               \<and> invoice (payment self') = invoiceid (next_invoice e)
               \<and> attachments (last (outbox w')) = [pdf_path (next_invoice e)])
         \<and> (PAYMENT_FAKTURACE e = None \<longrightarrow>
               storage w' = storage w \<and> invoice (payment self') = invoice (payment self))
         \<and> set (fetch w' (uuid (payment self))) = {payment self'}
         \<and> butlast (outbox w') = outbox w \<and> outbox w' \<noteq> []
         \<and> subject (last (outbox w')) = ''Your payment on weblate.org''
         \<and> recipients (last (outbox w')) = [email (customer (payment self))]"
    if p: "state (payment self) = PENDING" and t: "fst (collect cls req self) = Inr True"
      and g: "PAYMENT_FAKTURACE e = None \<or> storage_error e = None \<and> git_error e = None"
      and m: "mail_error e = None"
  proof -
    note sr = success_returns[OF g m, of cls ?s1 w]
    obtain s2 w2 where su: "success e cls ?s1 w = (Inr (), s2, w2)"
      using sr(1) by (cases "success e cls ?s1 w") auto
    from assms complete_proj(2)[OF p t, of e w] su
    have r: "res = Inr True" "self' = s2" "w' = w2" by simp_all
    have r': "self' = fst (snd (success e cls ?s1 w))" "w' = snd (snd (success e cls ?s1 w))"
      by (simp_all add: r su)
    have "fetch w' (uuid (payment self)) = fetch (save (payment self') w) (uuid (payment self'))"
      using sr(4,5) by (simp add: fetch_def r' ck)
    then have sv: "set (fetch w' (uuid (payment self))) = {payment self'}"
      by (simp add: fetch_save_set)
    have on: "butlast (storage w') = storage w \<and> storage w' \<noteq> []
               \<and> stored (last (storage w')) = next_invoice e
               \<and> contact (last (storage w')) = customer (payment self)
               \<and> item (last (storage w')) = description (payment self)
               \<and> invoice (payment self') = invoiceid (next_invoice e)
               \<and> attachments (last (outbox w')) = [pdf_path (next_invoice e)]"
      if f: "PAYMENT_FAKTURACE e \<noteq> None"
    proof -
      from f obtain d where d: "PAYMENT_FAKTURACE e = Some d" by blast
      from f g have ok: "storage_error e = None" "git_error e = None" by auto
      note gi = generate_invoice_on[OF d ok, of cls "accepted cls ?s1" w]
      show ?thesis
        by (simp add: r' sr(10,11,12) gi accepted_fields ck)
    qed
    have off: "storage w' = storage w \<and> invoice (payment self') = invoice (payment self)"
      if f: "PAYMENT_FAKTURACE e = None"
      by (simp add: r' sr(11,12) generate_invoice_off[OF f] accepted_fields ck)
    show ?thesis
      using on off sv by (simp add: r(1) r' sr(2,3,6,7,8,9) ck)
  qed
  have d: "res = Inl err \<and> payments w' = payments w \<and> outbox w' = outbox w"
    if p: "state (payment self) = PENDING" and t: "fst (collect cls req self) = Inr True"
      and f: "PAYMENT_FAKTURACE e \<noteq> None"
      and x: "storage_error e = Some err \<or> storage_error e = None \<and> git_error e = Some err"
    for err
  proof -
    have "success e cls ?s1 w = (Inl err, snd ?G)"
      by (rule success_invoice_raises[OF generate_invoice_raises[OF f x]])
    with assms complete_proj(2)[OF p t, of e w]
    have "res = Inl err" "w' = snd (snd ?G)"
      by (simp_all add: case_prod_beta)
    then show ?thesis
      by (simp add: generate_invoice_keeps)
  qed
  have f: "res = Inr False
         \<and> state (payment self') = REJECTED
         \<and> details (payment self') = details (payment ?s1)
         \<and> storage w' = storage w
         \<and> set (fetch w' (uuid (payment self))) = {payment self'}
         \<and> butlast (outbox w') = outbox w \<and> outbox w' \<noteq> []
         \<and> subject (last (outbox w')) = ''Your failed payment on weblate.org''
         \<and> recipients (last (outbox w')) = [email (customer (payment self))]
         \<and> (\<forall>reason. details (payment self') ''reject_reason'' = Some reason \<longrightarrow>
               message (last (outbox w'))
                 = PaymentFailed reason (origin (customer (payment self))))"
    if p: "state (payment self) = PENDING" and t: "fst (collect cls req self) = Inr False"
      and m: "mail_error e = None"
  proof -
    let ?p = "(payment ?s1)\<lparr>state := REJECTED\<rparr>"
    let ?F = "failure e ?s1 w"
    note fr = failure_returns[OF m, of ?s1 w]
    obtain s2 w2 where fa: "?F = (Inr (), s2, w2)"
      using fr(1) by (cases ?F) auto
    from assms complete_proj(3)[OF p t, of e w] fa
    have r0: "res = Inr False" "self' = s2" "w' = w2" by simp_all
    have s': "self' = fst (snd ?F)" by (simp add: r0 fa)
    have w': "w' = snd (snd ?F)" by (simp add: r0 fa)
    have p': "payment self' = ?p" by (simp add: s' fr(2))
    have 1: "state (payment self') = REJECTED" by (simp add: p')
    have 2: "details (payment self') = details (payment ?s1)" by (simp add: p')
    have 3: "storage w' = storage w" by (simp add: w' fr(4))
    have "fetch w' (uuid (payment self)) = fetch (save ?p w) (uuid ?p)"
      by (simp add: fetch_def w' fr(3) ck(1))
    also have "set \<dots> = {?p}" by (rule fetch_save_set)
    finally have 4: "set (fetch w' (uuid (payment self))) = {payment self'}"
      by (simp add: p')
    have 5: "butlast (outbox w') = outbox w" "outbox w' \<noteq> []"
      "subject (last (outbox w')) = ''Your failed payment on weblate.org''"
      by (simp_all add: w' fr(5,6,7))
    have 6: "recipients (last (outbox w')) = [email (customer (payment self))]"
      by (simp add: w' fr(9) ck(4))
    have 7: "message (last (outbox w'))
        = PaymentFailed (dict_get (details (payment ?s1)) ''reject_reason'' (Str ''Uknown''))
            (origin (customer (payment self)))"
      by (simp add: w' fr(8) ck(4))
    have 8: "message (last (outbox w')) = PaymentFailed reason (origin (customer (payment self)))"
      if "details (payment self') ''reject_reason'' = Some reason" for reason
      using that by (simp add: 7 2 dict_get_def)
    show ?thesis
      by (intro conjI allI impI) (simp_all add: r0(1) 1 2 3 4 5 6 8)
  qed
  have g: "res = Inl err \<and> state (payment self') = ACCEPTED
            \<and> set (fetch w' (uuid (payment self))) = {payment self'}
            \<and> outbox w' = outbox w"
    if p: "state (payment self) = PENDING" and t: "fst (collect cls req self) = Inr True"
      and i: "PAYMENT_FAKTURACE e = None \<or> storage_error e = None \<and> git_error e = None"
      and m: "mail_error e = Some err"
    for err
  proof -
    let ?s3 = "fst (snd ?G)"
    note su = success_mail_raises[OF generate_invoice_returns[OF i] m, of cls ?s1 w]
    have "complete e cls req self w = (Inl err, ?s3, save (payment ?s3) (snd (snd ?G)))"
      by (simp add: complete_proj(2)[OF p t] su)
    with assms have r: "res = Inl err" "self' = ?s3" "w' = save (payment ?s3) (snd (snd ?G))"
      by auto
    note k = generate_invoice_keeps[of e cls "accepted cls ?s1" w]
    have u: "uuid (payment self) = uuid (payment ?s3)"
      by (simp add: k accepted_fields ck)
    have "set (fetch w' (uuid (payment self))) = {payment self'}"
      unfolding r u by (rule fetch_save_set)
    then show ?thesis
      by (simp add: r(1)) (simp add: r(2,3) k accepted_fields save_other_fields)
  qed
  have h: "res = Inl err \<and> state (payment self') = REJECTED
            \<and> set (fetch w' (uuid (payment self))) = {payment self'}
            \<and> outbox w' = outbox w"
    if p: "state (payment self) = PENDING" and t: "fst (collect cls req self) = Inr False"
      and m: "mail_error e = Some err"
    for err
  proof -
    let ?p = "(payment ?s1)\<lparr>state := REJECTED\<rparr>"
    note fa = failure_mail_raises[OF m, of ?s1 w]
    have "complete e cls req self w = (Inl err, ?s1\<lparr>payment := ?p\<rparr>, save ?p w)"
      by (simp add: complete_proj(3)[OF p t] fa)
    with assms have r: "res = Inl err" "self' = ?s1\<lparr>payment := ?p\<rparr>" "w' = save ?p w"
      by auto
    have u: "uuid (payment self) = uuid ?p"
      by (simp add: ck)
    have pp: "payment self' = ?p" by (simp add: r(2))
    have "set (fetch w' (uuid (payment self))) = {payment self'}"
      unfolding r(3) u pp by (rule fetch_save_set)
    then show ?thesis
      by (simp add: r(1)) (simp add: r(2,3) save_other_fields)
  qed
  show ?thesis
    apply (intro conjI)
    subgoal using a by blast
    subgoal using b by blast
    subgoal using c by blast
    subgoal using d by blast
    subgoal using f by blast
    subgoal using g by blast
    subgoal using h by blast
    done
qed


lemma test_backend_fields:
  "state (payment (test_backend cls st)) = st"
  "uuid (payment (test_backend cls st)) = ''u1''"
  "recurring (payment (test_backend cls st)) = ''y''"
  "invoice (payment (test_backend cls st)) = []"
  "details (payment (test_backend cls st)) = Map.empty"
  "customer (payment (test_backend cls st)) = cz_customer"
  "description (payment (test_backend cls st)) = ''Test payment''"
  "config (test_backend ThePayCard st) = Some DefaultConfig"
  by (simp_all add: test_backend_def test_payment_def)

lemma test_collects:
  "collect DebugPay req (test_backend DebugPay st) = (Inr True, test_backend DebugPay st)"
  "fst (collect DebugReject req (test_backend DebugReject st)) = Inr False"
  "details (payment (snd (collect DebugReject req (test_backend DebugReject st)))) ''reject_reason''
     = Some (Str ''Debug reject'')"
  "collect ThePayCard foreign_callback (test_backend ThePayCard st)
     = (Inr False, test_backend ThePayCard st)"
  "collect ThePayCard bad_signature (test_backend ThePayCard st)
     = (Inl InvalidSignature, test_backend ThePayCard st)"
  by (simp_all add: ThePayCard_collect_def checkSignature_def test_backend_fields
      bad_signature_def foreign_callback_def)

lemma test_env_fields:
  "PAYMENT_FAKTURACE test_env = Some ''/fakturace''"
  "storage_error test_env = None" "git_error test_env = None" "mail_error test_env = None"
  "post_error test_env = None"
  "next_invoice test_env = \<lparr>invoiceid = ''1910001'', pdf_path = ''pdf/1910001.pdf''\<rparr>"
  by (simp_all add: test_env_def)

text \<open>
  Where \<open>complete\<close> records no reject reason: the card backend, given a correctly signed
  callback whose merchant data names another payment, returns false from \<open>collect\<close>
  before any reason is stored. \<open>complete\<close> returns false and the payment is REJECTED with
  no \<open>reject_reason\<close> in \<open>details\<close>.
\<close>

theorem complete_outcome_counterexample:
  "fst (complete test_env ThePayCard foreign_callback (test_backend ThePayCard PENDING) test_world)
     = Inr False
   \<and> state (payment (fst (snd (complete test_env ThePayCard foreign_callback
         (test_backend ThePayCard PENDING) test_world)))) = REJECTED
   \<and> details (payment (fst (snd (complete test_env ThePayCard foreign_callback
         (test_backend ThePayCard PENDING) test_world)))) ''reject_reason'' = None"
proof -
  let ?b = "test_backend ThePayCard PENDING"
  have c: "fst (collect ThePayCard foreign_callback ?b) = Inr False"
    "snd (collect ThePayCard foreign_callback ?b) = ?b"
    by (simp_all only: test_collects fst_conv snd_conv)
  have p: "state (payment ?b) = PENDING"
    by (simp only: test_backend_fields)
  have "complete test_env ThePayCard foreign_callback ?b test_world
      = (case failure test_env ?b test_world of
           (Inl err, self2, w1) \<Rightarrow> (Inl err, self2, w1)
         | (Inr done, self2, w1) \<Rightarrow> (Inr False, self2, w1))"
    using complete_proj(3)[OF p c(1), of test_env test_world] by (simp only: c(2))
  then show ?thesis
    by (simp add: failure_done[OF test_env_fields(4)] test_backend_fields)
qed


theorem complete_outcome_witness:
  "fst (complete test_env DebugPay bad_signature (test_backend DebugPay NEW) test_world)
     = Inl InvalidState
   \<and> snd (complete test_env DebugPay bad_signature (test_backend DebugPay NEW) test_world)
     = (test_backend DebugPay NEW, test_world)
   \<and> fst (complete test_env ThePayCard bad_signature (test_backend ThePayCard PENDING) test_world)
     = Inl InvalidSignature
   \<and> snd (snd (complete test_env ThePayCard bad_signature (test_backend ThePayCard PENDING)
        test_world)) = test_world
   \<and> fst (complete test_env DebugPay bad_signature (test_backend DebugPay PENDING) test_world)
     = Inr True
   \<and> state (payment (fst (snd (complete test_env DebugPay bad_signature
        (test_backend DebugPay PENDING) test_world)))) = ACCEPTED
   \<and> recurring (payment (fst (snd (complete test_env DebugPay bad_signature
        (test_backend DebugPay PENDING) test_world)))) = ''y''
   \<and> invoice (payment (fst (snd (complete test_env DebugPay bad_signature
        (test_backend DebugPay PENDING) test_world)))) = ''1910001''
   \<and> attachments (last (outbox (snd (snd (complete test_env DebugPay bad_signature
        (test_backend DebugPay PENDING) test_world))))) = [''pdf/1910001.pdf'']
   \<and> storage (snd (snd (complete (test_env\<lparr>PAYMENT_FAKTURACE := None\<rparr>) DebugPay bad_signature
        (test_backend DebugPay PENDING) test_world))) = []
   \<and> fst (complete (test_env\<lparr>git_error := Some CalledProcessError\<rparr>) DebugPay bad_signature
        (test_backend DebugPay PENDING) test_world) = Inl CalledProcessError
   \<and> payments (snd (snd (complete (test_env\<lparr>git_error := Some CalledProcessError\<rparr>) DebugPay
        bad_signature (test_backend DebugPay PENDING) test_world))) = [test_payment]
   \<and> outbox (snd (snd (complete (test_env\<lparr>git_error := Some CalledProcessError\<rparr>) DebugPay
        bad_signature (test_backend DebugPay PENDING) test_world))) = []
   \<and> fst (complete test_env DebugReject bad_signature (test_backend DebugReject PENDING) test_world)
     = Inr False
   \<and> state (payment (fst (snd (complete test_env DebugReject bad_signature
        (test_backend DebugReject PENDING) test_world)))) = REJECTED
   \<and> message (last (outbox (snd (snd (complete test_env DebugReject bad_signature
        (test_backend DebugReject PENDING) test_world)))))
       = PaymentFailed (Str ''Debug reject'') ''https://weblate.org/''
   \<and> fst (complete (test_env\<lparr>mail_error := Some SMTPException\<rparr>) DebugPay bad_signature
        (test_backend DebugPay PENDING) test_world) = Inl SMTPException
   \<and> state (payment (fst (snd (complete (test_env\<lparr>mail_error := Some SMTPException\<rparr>) DebugPay
        bad_signature (test_backend DebugPay PENDING) test_world)))) = ACCEPTED
   \<and> fst (complete (test_env\<lparr>mail_error := Some SMTPException\<rparr>) DebugReject bad_signature
        (test_backend DebugReject PENDING) test_world) = Inl SMTPException
   \<and> outbox (snd (snd (complete (test_env\<lparr>mail_error := Some SMTPException\<rparr>) DebugReject
        bad_signature (test_backend DebugReject PENDING) test_world))) = []"
proof -
  have split3: "x = (fst x, fst (snd x), snd (snd x))" for x :: "(error + bool) \<times> backend_obj \<times> world"
    by simp
  have h: "PAYMENT_FAKTURACE test_env \<noteq> None"
    "PAYMENT_FAKTURACE (test_env\<lparr>PAYMENT_FAKTURACE := None\<rparr>) = None"
    "mail_error (test_env\<lparr>PAYMENT_FAKTURACE := None\<rparr>) = None"
    "PAYMENT_FAKTURACE (test_env\<lparr>git_error := Some CalledProcessError\<rparr>) \<noteq> None"
    "storage_error (test_env\<lparr>git_error := Some CalledProcessError\<rparr>) = None"
    "git_error (test_env\<lparr>git_error := Some CalledProcessError\<rparr>) = Some CalledProcessError"
    "storage test_world = []" "payments test_world = [test_payment]" "outbox test_world = []"
    "origin cz_customer = ''https://weblate.org/''"
    by (simp_all add: test_env_def test_world_def cz_customer_def)
  have c5: "fst (collect ThePayCard bad_signature (test_backend ThePayCard PENDING))
      = Inl InvalidSignature"
    by (simp only: test_collects fst_conv)
  note w1 = complete_outcome[where e=test_env and cls=DebugPay and req=bad_signature
      and self="test_backend DebugPay NEW" and w=test_world, OF split3]
  note w2 = complete_outcome[where e=test_env and cls=ThePayCard and req=bad_signature
      and self="test_backend ThePayCard PENDING" and w=test_world, OF split3]
  note w3 = complete_outcome[where e=test_env and cls=DebugPay and req=bad_signature
      and self="test_backend DebugPay PENDING" and w=test_world, OF split3]
  note w4 = complete_outcome[where e="test_env\<lparr>PAYMENT_FAKTURACE := None\<rparr>" and cls=DebugPay
      and req=bad_signature and self="test_backend DebugPay PENDING" and w=test_world, OF split3]
  note w5 = complete_outcome[where e="test_env\<lparr>git_error := Some CalledProcessError\<rparr>"
      and cls=DebugPay and req=bad_signature and self="test_backend DebugPay PENDING"
      and w=test_world, OF split3]
  note w6 = complete_outcome[where e=test_env and cls=DebugReject and req=bad_signature
      and self="test_backend DebugReject PENDING" and w=test_world, OF split3]
  have c1: "fst (complete test_env DebugPay bad_signature (test_backend DebugPay NEW) test_world)
     = Inl InvalidState
   \<and> snd (complete test_env DebugPay bad_signature (test_backend DebugPay NEW) test_world)
     = (test_backend DebugPay NEW, test_world)"
    using w1 by (simp add: test_backend_fields prod_eq_iff)
  have c2: "fst (complete test_env ThePayCard bad_signature (test_backend ThePayCard PENDING)
        test_world) = Inl InvalidSignature
   \<and> snd (snd (complete test_env ThePayCard bad_signature (test_backend ThePayCard PENDING)
        test_world)) = test_world"
    using w2 c5 test_backend_fields(1)[of ThePayCard PENDING] by blast
  have c3: "fst (complete test_env DebugPay bad_signature (test_backend DebugPay PENDING) test_world)
     = Inr True
   \<and> state (payment (fst (snd (complete test_env DebugPay bad_signature
        (test_backend DebugPay PENDING) test_world)))) = ACCEPTED
   \<and> recurring (payment (fst (snd (complete test_env DebugPay bad_signature
        (test_backend DebugPay PENDING) test_world)))) = ''y''
   \<and> invoice (payment (fst (snd (complete test_env DebugPay bad_signature
        (test_backend DebugPay PENDING) test_world)))) = ''1910001''
   \<and> attachments (last (outbox (snd (snd (complete test_env DebugPay bad_signature
        (test_backend DebugPay PENDING) test_world))))) = [''pdf/1910001.pdf'']"
    using w3 by (simp add: test_backend_fields test_collects test_env_fields)
  have c4: "storage (snd (snd (complete (test_env\<lparr>PAYMENT_FAKTURACE := None\<rparr>) DebugPay
        bad_signature (test_backend DebugPay PENDING) test_world))) = []"
    using w4 by (simp add: test_backend_fields test_collects h)
  have c6: "fst (complete (test_env\<lparr>git_error := Some CalledProcessError\<rparr>) DebugPay bad_signature
        (test_backend DebugPay PENDING) test_world) = Inl CalledProcessError
   \<and> payments (snd (snd (complete (test_env\<lparr>git_error := Some CalledProcessError\<rparr>) DebugPay
        bad_signature (test_backend DebugPay PENDING) test_world))) = [test_payment]
   \<and> outbox (snd (snd (complete (test_env\<lparr>git_error := Some CalledProcessError\<rparr>) DebugPay
        bad_signature (test_backend DebugPay PENDING) test_world))) = []"
    using w5 by (simp add: test_backend_fields test_collects h)
  have c7: "fst (complete test_env DebugReject bad_signature (test_backend DebugReject PENDING)
        test_world) = Inr False
   \<and> state (payment (fst (snd (complete test_env DebugReject bad_signature
        (test_backend DebugReject PENDING) test_world)))) = REJECTED
   \<and> message (last (outbox (snd (snd (complete test_env DebugReject bad_signature
        (test_backend DebugReject PENDING) test_world)))))
       = PaymentFailed (Str ''Debug reject'') ''https://weblate.org/''"
    using w6 by (simp add: test_backend_fields test_collects test_env_fields h)
  have m: "PAYMENT_FAKTURACE (test_env\<lparr>mail_error := Some SMTPException\<rparr>) \<noteq> None"
    "storage_error (test_env\<lparr>mail_error := Some SMTPException\<rparr>) = None"
    "git_error (test_env\<lparr>mail_error := Some SMTPException\<rparr>) = None"
    "mail_error (test_env\<lparr>mail_error := Some SMTPException\<rparr>) = Some SMTPException"
    by (simp_all add: test_env_def)
  note w7 = complete_outcome[where e="test_env\<lparr>mail_error := Some SMTPException\<rparr>"
      and cls=DebugPay and req=bad_signature and self="test_backend DebugPay PENDING"
      and w=test_world, OF split3]
  note w8 = complete_outcome[where e="test_env\<lparr>mail_error := Some SMTPException\<rparr>"
      and cls=DebugReject and req=bad_signature and self="test_backend DebugReject PENDING"
      and w=test_world, OF split3]
  have c8: "fst (complete (test_env\<lparr>mail_error := Some SMTPException\<rparr>) DebugPay bad_signature
        (test_backend DebugPay PENDING) test_world) = Inl SMTPException
   \<and> state (payment (fst (snd (complete (test_env\<lparr>mail_error := Some SMTPException\<rparr>) DebugPay
        bad_signature (test_backend DebugPay PENDING) test_world)))) = ACCEPTED"
    using w7 by (simp add: test_backend_fields test_collects m)
  have c9: "fst (complete (test_env\<lparr>mail_error := Some SMTPException\<rparr>) DebugReject bad_signature
        (test_backend DebugReject PENDING) test_world) = Inl SMTPException
   \<and> outbox (snd (snd (complete (test_env\<lparr>mail_error := Some SMTPException\<rparr>) DebugReject
        bad_signature (test_backend DebugReject PENDING) test_world))) = []"
    using w8 by (simp add: test_backend_fields test_collects m h)
  show ?thesis
    apply (intro conjI)
    using c1 c2 c3 c4 c6 c7 c8 c9 apply simp_all
    done
qed


section \<open>The state machine of a payment\<close>

lemma success_when_returns:
  assumes "fst (success e cls self w) = Inr done"
  shows "state (payment (fst (snd (success e cls self w)))) = ACCEPTED"
    and "uuid (payment (fst (snd (success e cls self w)))) = uuid (payment self)"
    and "payments (snd (snd (success e cls self w)))
           = payments (save (payment (fst (snd (success e cls self w)))) w)"
proof -
  let ?G = "generate_invoice e cls (accepted cls self) w"
  have g: "fst ?G = Inr ()"
  proof (cases "fst ?G")
    case (Inl err)
    from success_invoice_raises[OF this] assms show ?thesis by simp
  next
    case (Inr u)
    then show ?thesis by simp
  qed
  have m: "mail_error e = None"
  proof (cases "mail_error e")
    case None
    then show ?thesis .
  next
    case (Some err)
    from success_mail_raises[OF g this] assms show ?thesis by simp
  qed
  note s = success_done[OF g m]
  note k = generate_invoice_keeps[of e cls "accepted cls self" w]
  note n = notify_user_sent[OF m, of "fst (snd ?G)" "save (payment (fst (snd ?G))) (snd (snd ?G))"]
  show "state (payment (fst (snd (success e cls self w)))) = ACCEPTED"
    by (simp add: s k accepted_fields)
  show "uuid (payment (fst (snd (success e cls self w)))) = uuid (payment self)"
    by (simp add: s k accepted_fields)
  show "payments (snd (snd (success e cls self w)))
           = payments (save (payment (fst (snd (success e cls self w)))) w)"
    by (simp add: s n payments_save k)
qed

lemma failure_when_returns:
  assumes "fst (failure e self w) = Inr done"
  shows "state (payment (fst (snd (failure e self w)))) = REJECTED"
    and "uuid (payment (fst (snd (failure e self w)))) = uuid (payment self)"
    and "payments (snd (snd (failure e self w)))
           = payments (save (payment (fst (snd (failure e self w)))) w)"
proof -
  have m: "mail_error e = None"
  proof (cases "mail_error e")
    case None
    then show ?thesis .
  next
    case (Some err)
    from failure_mail_raises[OF this, of self w] assms show ?thesis by simp
  qed
  note fr = failure_returns[OF m, of self w]
  show "state (payment (fst (snd (failure e self w)))) = REJECTED"
    "uuid (payment (fst (snd (failure e self w)))) = uuid (payment self)"
    "payments (snd (snd (failure e self w)))
           = payments (save (payment (fst (snd (failure e self w)))) w)"
    by (simp_all add: fr(2,3))
qed

lemma complete_when_returns:
  assumes "complete e cls req self w = (Inr v, self', w')"
  shows "state (payment self) = PENDING
      \<and> (state (payment self') = ACCEPTED \<or> state (payment self') = REJECTED)
      \<and> uuid (payment self') = uuid (payment self)
      \<and> payments w' = payments (save (payment self') w)"
proof -
  let ?s1 = "snd (collect cls req self)"
  note ck = collect_keeps_proj[of cls req self]
  have p: "state (payment self) = PENDING"
    using assms by (cases "state (payment self) = PENDING") (simp_all add: complete_def)
  show ?thesis
  proof (cases "fst (collect cls req self)")
    case (Inl err)
    from complete_proj(1)[OF p this, of e w] assms show ?thesis by simp
  next
    case (Inr collected)
    show ?thesis
    proof (cases collected)
      case True
      with Inr have t: "fst (collect cls req self) = Inr True" by simp
      obtain r2 s2 w2 where su: "success e cls ?s1 w = (r2, s2, w2)"
        by (cases "success e cls ?s1 w") auto
      from complete_proj(2)[OF p t, of e w] assms su
      have r: "r2 = Inr ()" "self' = s2" "w' = w2"
        by (cases r2; simp)+
      from success_when_returns[of e cls ?s1 w "()"] su r
      show ?thesis by (simp add: p ck)
    next
      case False
      with Inr have t: "fst (collect cls req self) = Inr False" by simp
      obtain r2 s2 w2 where fa: "failure e ?s1 w = (r2, s2, w2)"
        by (cases "failure e ?s1 w") auto
      from complete_proj(3)[OF p t, of e w] assms fa
      have r: "r2 = Inr ()" "self' = s2" "w' = w2"
        by (cases r2; simp)+
      from failure_when_returns[of e ?s1 w "()"] fa r
      show ?thesis by (simp add: p ck)
    qed
  qed
qed

lemma Backend_init_payment:
  assumes "Backend_init e cls p w = Inr self"
  shows "payment self = hd (fetch w (uuid p))" and "fetch w (uuid p) \<noteq> []"
    and "uuid (payment self) = uuid p"
proof -
  from assms obtain q qs where q: "fetch w (uuid p) = q # qs" and s: "payment self = q"
    by (auto simp: Backend_init_def split: list.splits)
  show "payment self = hd (fetch w (uuid p))" "fetch w (uuid p) \<noteq> []"
    by (simp_all add: q s)
  have "q \<in> set (fetch w (uuid p))" by (simp add: q)
  then show "uuid (payment self) = uuid p"
    by (simp add: fetch_def s)
qed

lemma exec_op_step:
  assumes "fetch w k = [r]"
  shows "\<exists>r'. fetch (exec_op e p operation w) k = [r'] \<and> one_step (state r) (state r')"
proof (cases "Backend_init e (case operation of Initiate c _ _ _ \<Rightarrow> c | Complete c _ \<Rightarrow> c) p w")
  case (Inl err)
  then have "exec_op e p operation w = w"
    by (cases operation) simp_all
  with assms show ?thesis by (simp add: one_step_def)
next
  case (Inr self)
  have same: "payment self = r" if "uuid p = k"
    using Backend_init_payment(1)[OF Inr] assms that by simp
  have u: "uuid (payment self) = uuid p"
    by (rule Backend_init_payment(3)[OF Inr])
  have rolled_back: "\<exists>r'. fetch (w'\<lparr>payments := payments w\<rparr>) k = [r'] \<and> one_step (state r) (state r')"
    for w' :: world
    using assms by (simp add: fetch_def one_step_def)
  have saved: "\<exists>r'. fetch w' k = [r'] \<and> one_step (state r) (state r')"
    if "payments w' = payments (save q w)" "uuid q = uuid (payment self)"
      "one_step (state (payment self)) (state q)" for w' q
  proof (cases "uuid p = k")
    case True
    with fetch_after_save[OF that(1) assms] that(2,3) u same show ?thesis by simp
  next
    case False
    with fetch_after_save[OF that(1) assms] that(2) u show ?thesis by (simp add: one_step_def)
  qed
  show ?thesis
  proof (cases operation)
    case (Initiate cls req b c)
    obtain res s' w' where R: "initiate e cls req b c self w = (res, s', w')"
      by (cases "initiate e cls req b c self w") auto
    have ex: "exec_op e p operation w = atomic w (res, s', w')"
      using Inr Initiate R by simp
    show ?thesis
    proof (cases res)
      case (Inl err)
      with ex rolled_back show ?thesis by (simp add: atomic_def)
    next
      case (Inr v)
      with ex have ex': "exec_op e p operation w = w'" by (simp add: atomic_def)
      from initiate_cases[OF R] show ?thesis
      proof
        assume "w' = w \<and> s' = self"
        with assms ex' show ?thesis by (simp add: one_step_def)
      next
        assume "state (payment self) = NEW \<and> state (payment s') = PENDING
          \<and> uuid (payment s') = uuid (payment self) \<and> w' = save (payment s') w"
        then show ?thesis
          using saved[of w' "payment s'"] by (simp add: ex' one_step_def)
      qed
    qed
  next
    case (Complete cls req)
    obtain res s' w' where R: "complete e cls req self w = (res, s', w')"
      by (cases "complete e cls req self w") auto
    have ex: "exec_op e p operation w = atomic w (res, s', w')"
      using Inr Complete R by simp
    show ?thesis
    proof (cases res)
      case (Inl err)
      with ex rolled_back show ?thesis by (simp add: atomic_def)
    next
      case (Inr v)
      with ex have ex': "exec_op e p operation w = w'" by (simp add: atomic_def)
      from complete_when_returns[OF R[unfolded Inr]] show ?thesis
        using saved[of w' "payment s'"] by (auto simp: ex' one_step_def)
    qed
  qed
qed

lemma reaches_step: "one_step s s' \<Longrightarrow> reaches s' s'' \<Longrightarrow> reaches s s''"
  by (auto simp: one_step_def reaches_def)

lemma run_reaches:
  assumes "fetch w k = [r]"
  shows "\<exists>r'. fetch (run ops w) k = [r'] \<and> reaches (state r) (state r')"
  using assms
proof (induction ops arbitrary: w r)
  case Nil
  then show ?case by (simp add: reaches_def)
next
  case (Cons x ops)
  obtain e p operation where x: "x = (e, p, operation)" by (cases x) auto
  from exec_op_step[OF Cons.prems, of e p operation]
  obtain r1 where r1: "fetch (exec_op e p operation w) k = [r1]" "one_step (state r) (state r1)"
    by blast
  from Cons.IH[OF r1(1)] obtain r' where
    "fetch (run ops (exec_op e p operation w)) k = [r']" "reaches (state r1) (state r')"
    by blast
  with r1(2) x show ?case by (auto intro: reaches_step)
qed

lemma reaches_forward: "reaches s s' \<Longrightarrow> forward\<^sup>*\<^sup>* s s'"
proof -
  have e: "forward NEW PENDING" "forward PENDING ACCEPTED" "forward PENDING REJECTED" by simp_all
  assume "reaches s s'"
  then consider "s' = s" | "s = NEW" "s' = PENDING" | "s = NEW" "s' = ACCEPTED"
    | "s = NEW" "s' = REJECTED" | "s = PENDING" "s' = ACCEPTED" | "s = PENDING" "s' = REJECTED"
    by (auto simp: reaches_def)
  then show ?thesis
  proof cases
    case 1 then show ?thesis by simp
  next
    case 2 with e show ?thesis by blast
  next
    case 3 with e show ?thesis by (meson rtranclp.rtrancl_into_rtrancl rtranclp.rtrancl_refl)
  next
    case 4 with e show ?thesis by (meson rtranclp.rtrancl_into_rtrancl rtranclp.rtrancl_refl)
  next
    case 5 with e show ?thesis by blast
  next
    case 6 with e show ?thesis by blast
  qed
qed

lemma test_fetch:
  "fetch test_world ''u1'' = [test_payment]"
  "fetch (test_world\<lparr>payments := [test_payment\<lparr>state := REJECTED\<rparr>]\<rparr>) ''u1''
     = [test_payment\<lparr>state := REJECTED\<rparr>]"
  "fetch (test_world\<lparr>payments := [test_payment\<lparr>state := PENDING\<rparr>]\<rparr>) ''u1''
     = [test_payment\<lparr>state := PENDING\<rparr>]"
  by (simp_all add: fetch_def test_world_def test_payment_def)

text \<open>
  C3. For every row of the payments table (the only row with its key) and every run of
  \<open>initiate\<close> and \<open>complete\<close> operations, on this payment or on others, with any backend
  classes, settings and requests: after the run the row is still the only one with its
  key, its state is reached from the old one along the edges NEW to PENDING, PENDING to
  ACCEPTED or REJECTED, ACCEPTED to PROCESSED; a row that is REJECTED, ACCEPTED or
  PROCESSED keeps its state, and a PENDING row does not become NEW.
\<close>

theorem state_moves_forward:
  assumes "fetch w k = [r]"
  shows "\<exists>r'. fetch (run ops w) k = [r']
     \<and> forward\<^sup>*\<^sup>* (state r) (state r')
     \<and> (state r = REJECTED \<or> state r = ACCEPTED \<or> state r = PROCESSED \<longrightarrow> state r' = state r)
     \<and> (state r = PENDING \<longrightarrow> state r' \<noteq> NEW)"
proof -
  from run_reaches[OF assms, of ops] obtain r' where
    f: "fetch (run ops w) k = [r']" and re: "reaches (state r) (state r')"
    by blast
  have "state r' = state r" if "state r = REJECTED \<or> state r = ACCEPTED \<or> state r = PROCESSED"
    using re that by (auto simp: reaches_def)
  moreover have "state r' \<noteq> NEW" if "state r = PENDING"
    using re that by (auto simp: reaches_def)
  ultimately show ?thesis
    using f reaches_forward[OF re] by blast
qed

theorem state_moves_forward_witness:
  "fetch test_world ''u1'' = [test_payment]
   \<and> (\<exists>r'. fetch (run test_ops test_world) ''u1'' = [r'] \<and> forward\<^sup>*\<^sup>* NEW (state r'))
   \<and> fetch (test_world\<lparr>payments := [test_payment\<lparr>state := REJECTED\<rparr>]\<rparr>) ''u1''
       = [test_payment\<lparr>state := REJECTED\<rparr>]
   \<and> (\<exists>r'. fetch (run test_ops (test_world\<lparr>payments := [test_payment\<lparr>state := REJECTED\<rparr>]\<rparr>)) ''u1''
         = [r'] \<and> state r' = REJECTED)
   \<and> fetch (test_world\<lparr>payments := [test_payment\<lparr>state := PENDING\<rparr>]\<rparr>) ''u1''
       = [test_payment\<lparr>state := PENDING\<rparr>]
   \<and> (\<exists>r'. fetch (run test_ops (test_world\<lparr>payments := [test_payment\<lparr>state := PENDING\<rparr>]\<rparr>)) ''u1''
         = [r'] \<and> state r' \<noteq> NEW)"
proof -
  have s: "state test_payment = NEW" by (simp add: test_payment_def)
  show ?thesis
    using state_moves_forward[OF test_fetch(1), of test_ops]
      state_moves_forward[OF test_fetch(2), of test_ops]
      state_moves_forward[OF test_fetch(3), of test_ops] test_fetch
    by (auto simp: s)
qed

section \<open>Properties of repeat_payment\<close>

lemma sorted_last_Max:
  fixes zs :: "nat list"
  assumes "sorted zs" and "zs \<noteq> []"
  shows "last zs = Max (set zs)"
proof -
  have "\<forall>y \<in> set zs. y \<le> last zs"
    using assms by (induction zs) (auto split: if_splits)
  moreover have "last zs \<in> set zs"
    using assms(2) by simp
  ultimately have "Max (set zs) = last zs"
    by (intro Max_eqI) auto
  then show ?thesis by simp
qed

lemma latest_created:
  assumes "xs \<noteq> []"
  shows "rev (sort_key created xs) \<noteq> []"
    and "created (hd (rev (sort_key created xs))) = Max (created ` set xs)"
proof -
  let ?ys = "sort_key created xs"
  have ne: "?ys \<noteq> []"
    using assms by (metis length_sort length_0_conv)
  then show "rev ?ys \<noteq> []" by simp
  have "created (hd (rev ?ys)) = last (map created ?ys)"
    using ne by (simp add: hd_rev last_map)
  also have "\<dots> = Max (set (map created ?ys))"
    using ne by (intro sorted_last_Max) simp_all
  also have "\<dots> = Max (created ` set xs)"
    by simp
  finally show "created (hd (rev ?ys)) = Max (created ` set xs)" .
qed

lemma failures_streak: "length (failures chain) = failure_streak chain"
proof (cases "filter (\<lambda>r. state r = PROCESSED) chain = []")
  case True
  then show ?thesis
    by (simp add: failures_def failure_streak_def)
next
  case False
  let ?P = "filter (\<lambda>r. state r = PROCESSED) chain"
  from latest_created[OF False] obtain g gs where
    g: "rev (sort_key created ?P) = g # gs" and m: "created g = Max (created ` set ?P)"
    by (cases "rev (sort_key created ?P)") auto
  have "failures chain = filter (\<lambda>r. created g < created r) (filter (\<lambda>r. state r = REJECTED) chain)"
    using g by (simp add: failures_def)
  also have "\<dots> = filter (\<lambda>r. state r = REJECTED \<and> Max (created ` set ?P) < created r) chain"
    by (simp add: m)
  finally show ?thesis
    using False by (simp add: failure_streak_def Let_def)
qed

lemma get_backend_error: "get_backend e nm = Inl err \<Longrightarrow> err = KeyError"
  by (auto simp: get_backend_def split: option.splits if_splits)

lemma failures_Nil: "failures [] = []"
  by (simp add: failures_def)

lemma repeat_payment_refuses:
  assumes "get_backend e (backend self) = Inl err
     \<or> 3 \<le> length (failures (filter (\<lambda>r. repeat r = Some (uuid self)) (payments w)))"
  shows "repeat_payment e kwargs self w = (Inr (Some False), w)"
proof (cases "get_backend e (backend self)")
  case (Inl x)
  with get_backend_error[OF Inl] show ?thesis
    by (simp add: repeat_payment_def)
next
  case (Inr b)
  with assms have three: "3 \<le> length (failures (filter (\<lambda>r. repeat r = Some (uuid self)) (payments w)))"
    by simp
  then have "filter (\<lambda>r. repeat r = Some (uuid self)) (payments w) \<noteq> []"
    using failures_Nil by fastforce
  with three Inr show ?thesis
    by (simp add: repeat_payment_def Let_def)
qed

lemma repeat_payment_creates:
  assumes "get_backend e (backend self) = Inr b"
    and "length (failures (filter (\<lambda>r. repeat r = Some (uuid self)) (payments w))) < 3"
  shows "fst (repeat_payment e kwargs self w)
           = (case post_error e of Some err \<Rightarrow> Inl err | None \<Rightarrow> Inr None)"
    and "payments (snd (repeat_payment e kwargs self w)) = payments w @
           [\<lparr>uuid = uuid4 e, amount = amount self, description = description self,
             recurring = [], created = now e, state = NEW, backend = [],
             details = Map.empty, extra = extra self ++ kwargs, customer = customer self,
             repeat = Some (uuid self), invoice = [], amount_fixed = amount_fixed self\<rparr>]"
    and "posts (snd (repeat_payment e kwargs self w))
           = (case post_error e of
                Some err \<Rightarrow> posts w
              | None \<Rightarrow> posts w @
                  [\<lparr>post_url = get_payment_url e self,
                    post_data = [''method'' \<mapsto> Str (backend self),
                                 ''secret'' \<mapsto> Str (PAYMENT_SECRET e)]\<rparr>])"
  using assms by (simp_all add: repeat_payment_def Let_def split: option.split)

lemma repeat_payment_cases:
  "(repeat_payment e kwargs self w = (Inr (Some False), w)
      \<and> ((\<exists>err. get_backend e (backend self) = Inl err)
          \<or> 3 \<le> length (failures (filter (\<lambda>r. repeat r = Some (uuid self)) (payments w)))))
   \<or> (fst (repeat_payment e kwargs self w)
         = (case post_error e of Some err \<Rightarrow> Inl err | None \<Rightarrow> Inr None)
      \<and> (\<exists>b. get_backend e (backend self) = Inr b)
      \<and> length (failures (filter (\<lambda>r. repeat r = Some (uuid self)) (payments w))) < 3
      \<and> payments (snd (repeat_payment e kwargs self w)) = payments w @
           [\<lparr>uuid = uuid4 e, amount = amount self, description = description self,
             recurring = [], created = now e, state = NEW, backend = [],
             details = Map.empty, extra = extra self ++ kwargs, customer = customer self,
             repeat = Some (uuid self), invoice = [], amount_fixed = amount_fixed self\<rparr>]
      \<and> posts (snd (repeat_payment e kwargs self w))
           = (case post_error e of Some err \<Rightarrow> posts w | None \<Rightarrow> posts w @
                  [\<lparr>post_url = get_payment_url e self,
                    post_data = [''method'' \<mapsto> Str (backend self),
                                 ''secret'' \<mapsto> Str (PAYMENT_SECRET e)]\<rparr>]))"
proof (cases "get_backend e (backend self)")
  case (Inl err)
  then show ?thesis
    using repeat_payment_refuses[of e self err w kwargs] by simp
next
  case (Inr b)
  show ?thesis
  proof (cases "3 \<le> length (failures (filter (\<lambda>r. repeat r = Some (uuid self)) (payments w)))")
    case True
    then show ?thesis
      using repeat_payment_refuses[of e self KeyError w kwargs] by simp
  next
    case False
    then have "length (failures (filter (\<lambda>r. repeat r = Some (uuid self)) (payments w))) < 3"
      by simp
    from repeat_payment_creates[OF Inr this, of kwargs] Inr this show ?thesis
      by simp
  qed
qed

lemma test_get_backend: "get_backend test_env (backend renewed) = Inr DebugPay"
  by (simp add: get_backend_def BACKENDS_def register_backend_def test_env_def renewed_def)

lemma test_streaks:
  "failure_streak (filter (\<lambda>r. repeat r = Some (uuid renewed)) (payments abandoned_world)) = 3"
  "failure_streak (filter (\<lambda>r. repeat r = Some (uuid renewed)) (payments retry_world)) = 2"
  by (simp_all add: failure_streak_def abandoned_world_def retry_world_def renewed_def renewal_def
      test_payment_def)

lemma test_failures:
  "length (failures (filter (\<lambda>r. repeat r = Some (uuid renewed)) (payments retry_world))) < 3"
  "3 \<le> length (failures (filter (\<lambda>r. repeat r = Some (uuid renewed)) (payments abandoned_world)))"
  by (simp_all add: failures_streak test_streaks)

lemma test_unregistered: "get_backend test_env (backend test_payment) = Inl KeyError"
  by (simp add: get_backend_def BACKENDS_def register_backend_def test_payment_def)

lemma test_get_backend_offline:
  "get_backend (test_env\<lparr>post_error := Some ConnectionError\<rparr>) (backend renewed) = Inr DebugPay"
  by (simp add: get_backend_def BACKENDS_def register_backend_def test_env_def renewed_def)

text \<open>
  C4. When the backend of the payment resolves, the number of rows \<open>repeat_payment\<close>
  counts (the query set \<open>failures\<close> of the source, over the payments whose \<open>repeat\<close> is
  this payment) is the failure streak of the specification: the REJECTED payments of the
  chain created after its most recent PROCESSED payment, or all REJECTED ones when it has
  none. When the streak is at least 3, \<open>repeat_payment\<close> returns \<open>False\<close> and the world,
  so the payments table, is unchanged; below 3 it does not return \<open>False\<close>.
\<close>

theorem repeat_payment_three_strikes:
  assumes "get_backend e (backend self) = Inr b"
  shows "length (failures (filter (\<lambda>r. repeat r = Some (uuid self)) (payments w)))
           = failure_streak (filter (\<lambda>r. repeat r = Some (uuid self)) (payments w))
    \<and> (3 \<le> failure_streak (filter (\<lambda>r. repeat r = Some (uuid self)) (payments w)) \<longrightarrow>
          repeat_payment e kwargs self w = (Inr (Some False), w))
    \<and> (failure_streak (filter (\<lambda>r. repeat r = Some (uuid self)) (payments w)) < 3 \<longrightarrow>
          fst (repeat_payment e kwargs self w) \<noteq> Inr (Some False))"
proof -
  have "fst (repeat_payment e kwargs self w) \<noteq> Inr (Some False)"
    if "length (failures (filter (\<lambda>r. repeat r = Some (uuid self)) (payments w))) < 3"
    using repeat_payment_creates(1)[OF assms that, of kwargs]
    by (simp split: option.split)
  then show ?thesis
    using repeat_payment_refuses[of e self KeyError w kwargs]
    by (simp add: failures_streak)
qed

theorem repeat_payment_three_strikes_witness:
  "get_backend test_env (backend renewed) = Inr DebugPay
   \<and> failure_streak (filter (\<lambda>r. repeat r = Some (uuid renewed)) (payments abandoned_world)) = 3
   \<and> repeat_payment test_env Map.empty renewed abandoned_world = (Inr (Some False), abandoned_world)
   \<and> failure_streak (filter (\<lambda>r. repeat r = Some (uuid renewed)) (payments retry_world)) = 2
   \<and> fst (repeat_payment test_env Map.empty renewed retry_world) \<noteq> Inr (Some False)"
  using repeat_payment_three_strikes[OF test_get_backend, of abandoned_world Map.empty]
    repeat_payment_three_strikes[OF test_get_backend, of retry_world Map.empty]
    test_get_backend
  by (simp add: test_streaks)

text \<open>
  C5. When \<open>repeat_payment\<close> does not return \<open>False\<close>, the payments table is the old one
  with one row appended. The row has the amount, description, \<open>amount_fixed\<close> and customer
  of the original, an empty \<open>recurring\<close> (the one-time value), \<open>repeat\<close> set to the key of
  the original, and as \<open>extra\<close> the \<open>extra\<close> of the original updated with the keyword
  arguments: a key of the keyword arguments has the caller's value, any other key the
  value of the original.
\<close>

theorem repeat_payment_new_row:
  assumes "repeat_payment e kwargs self w = (res, w')" and "res \<noteq> Inr (Some False)"
  shows "butlast (payments w') = payments w \<and> payments w' \<noteq> []
    \<and> amount (last (payments w')) = amount self
    \<and> description (last (payments w')) = description self
    \<and> amount_fixed (last (payments w')) = amount_fixed self
    \<and> customer (last (payments w')) = customer self
    \<and> recurring (last (payments w')) = []
    \<and> repeat (last (payments w')) = Some (uuid self)
    \<and> extra (last (payments w')) = extra self ++ kwargs
    \<and> (\<forall>k v. kwargs k = Some v \<longrightarrow> extra (last (payments w')) k = Some v)
    \<and> (\<forall>k. kwargs k = None \<longrightarrow> extra (last (payments w')) k = extra self k)"
proof -
  from repeat_payment_cases[of e kwargs self w] assms
  have p: "payments w' = payments w @
           [\<lparr>uuid = uuid4 e, amount = amount self, description = description self,
             recurring = [], created = now e, state = NEW, backend = [],
             details = Map.empty, extra = extra self ++ kwargs, customer = customer self,
             repeat = Some (uuid self), invoice = [], amount_fixed = amount_fixed self\<rparr>]"
    by auto
  show ?thesis
    by (simp add: p map_add_def)
qed

theorem repeat_payment_new_row_witness:
  "fst (repeat_payment test_env [''note'' \<mapsto> Str ''again''] renewed retry_world) \<noteq> Inr (Some False)
   \<and> butlast (payments (snd (repeat_payment test_env [''note'' \<mapsto> Str ''again''] renewed
         retry_world))) = payments retry_world
   \<and> amount (last (payments (snd (repeat_payment test_env [''note'' \<mapsto> Str ''again''] renewed
         retry_world)))) = 100
   \<and> recurring (last (payments (snd (repeat_payment test_env [''note'' \<mapsto> Str ''again''] renewed
         retry_world)))) = []
   \<and> repeat (last (payments (snd (repeat_payment test_env [''note'' \<mapsto> Str ''again''] renewed
         retry_world)))) = Some ''u1''
   \<and> extra (last (payments (snd (repeat_payment test_env [''note'' \<mapsto> Str ''again''] renewed
         retry_world)))) ''note'' = Some (Str ''again'')
   \<and> extra (last (payments (snd (repeat_payment test_env [''note'' \<mapsto> Str ''again''] renewed
         retry_world)))) ''reward'' = Some (Str ''7'')"
proof -
  let ?R = "repeat_payment test_env [''note'' \<mapsto> Str ''again''] renewed retry_world"
  have h: "fst ?R \<noteq> Inr (Some False)"
    using repeat_payment_creates(1)[OF test_get_backend test_failures(1), of "[''note'' \<mapsto> Str ''again'']"]
    by (simp add: test_env_def)
  have f: "amount renewed = 100" "uuid renewed = ''u1''" "extra renewed ''reward'' = Some (Str ''7'')"
    by (simp_all add: renewed_def test_payment_def)
  have k: "[''note'' \<mapsto> Str ''again''] ''note'' = Some (Str ''again'')"
    "[''note'' \<mapsto> Str ''again''] ''reward'' = None"
    by simp_all
  have split2: "?R = (fst ?R, snd ?R)" by simp
  from repeat_payment_new_row[OF split2 h] h show ?thesis
    using f k by metis
qed

text \<open>
  C10. When the backend resolves, fewer than three failures are counted and the POST to
  the payment URL does not raise, \<open>repeat_payment\<close> appends the new row, sends the POST
  and returns \<open>None\<close>. When the POST raises, the exception leaves \<open>repeat_payment\<close>: there
  is no return value, the new row is already committed and nothing is posted. Whatever
  \<open>repeat_payment\<close> returns is \<open>False\<close> or \<open>None\<close>, both false as truth values, never
  \<open>True\<close>. It returns \<open>False\<close> exactly on the two refusals, an unresolved backend or three
  counted failures, and then leaves the world unchanged.
\<close>

theorem repeat_payment_return_value:
  assumes "repeat_payment e kwargs self w = (res, w')"
  shows "((\<exists>b. get_backend e (backend self) = Inr b)
          \<and> length (failures (filter (\<lambda>r. repeat r = Some (uuid self)) (payments w))) < 3
          \<and> post_error e = None \<longrightarrow>
            res = Inr None \<and> butlast (payments w') = payments w \<and> payments w' \<noteq> []
            \<and> repeat (last (payments w')) = Some (uuid self)
            \<and> butlast (posts w') = posts w \<and> posts w' \<noteq> []
            \<and> post_url (last (posts w')) = get_payment_url e self)
    \<and> (\<forall>err. (\<exists>b. get_backend e (backend self) = Inr b)
          \<and> length (failures (filter (\<lambda>r. repeat r = Some (uuid self)) (payments w))) < 3
          \<and> post_error e = Some err \<longrightarrow>
            res = Inl err \<and> butlast (payments w') = payments w \<and> payments w' \<noteq> []
            \<and> repeat (last (payments w')) = Some (uuid self)
            \<and> posts w' = posts w)
    \<and> (\<forall>v. res = Inr v \<longrightarrow> \<not> truthy v)
    \<and> (res = Inr (Some False) \<longleftrightarrow>
          (\<exists>err. get_backend e (backend self) = Inl err)
          \<or> 3 \<le> length (failures (filter (\<lambda>r. repeat r = Some (uuid self)) (payments w))))
    \<and> (res = Inr (Some False) \<longrightarrow> w' = w)"
proof -
  note c = repeat_payment_cases[of e kwargs self w]
  from assms have r: "fst (repeat_payment e kwargs self w) = res"
    "snd (repeat_payment e kwargs self w) = w'" by simp_all
  show ?thesis
  proof (cases "get_backend e (backend self)")
    case (Inl x)
    with c assms show ?thesis by auto
  next
    case (Inr b)
    show ?thesis
    proof (cases "3 \<le> length (failures (filter (\<lambda>r. repeat r = Some (uuid self)) (payments w)))")
      case True
      with c assms Inr show ?thesis by auto
    next
      case False
      then have lt: "length (failures (filter (\<lambda>r. repeat r = Some (uuid self)) (payments w))) < 3"
        by simp
      note k = repeat_payment_creates[OF Inr lt, of kwargs, unfolded r]
      show ?thesis
      proof (cases "post_error e")
        case None
        with k Inr lt show ?thesis by simp
      next
        case (Some err)
        with k Inr lt show ?thesis by simp
      qed
    qed
  qed
qed

text \<open>
  Where \<open>repeat_payment\<close> does not return \<open>None\<close> although the backend resolves and the
  failure streak is below three: the POST raises \<open>ConnectionError\<close>. The call raises it,
  with the new row appended to the payments table.
\<close>

theorem repeat_payment_return_value_counterexample:
  "get_backend (test_env\<lparr>post_error := Some ConnectionError\<rparr>) (backend renewed) = Inr DebugPay
   \<and> failure_streak (filter (\<lambda>r. repeat r = Some (uuid renewed)) (payments retry_world)) = 2
   \<and> fst (repeat_payment (test_env\<lparr>post_error := Some ConnectionError\<rparr>) Map.empty renewed
        retry_world) = Inl ConnectionError
   \<and> fst (repeat_payment (test_env\<lparr>post_error := Some ConnectionError\<rparr>) Map.empty renewed
        retry_world) \<noteq> Inr None
   \<and> length (payments (snd (repeat_payment (test_env\<lparr>post_error := Some ConnectionError\<rparr>)
        Map.empty renewed retry_world))) = Suc (length (payments retry_world))"
proof -
  have p: "post_error (test_env\<lparr>post_error := Some ConnectionError\<rparr>) = Some ConnectionError"
    by simp
  note k = repeat_payment_creates[OF test_get_backend_offline test_failures(1), of Map.empty]
  show ?thesis
    by (simp add: test_get_backend_offline test_streaks k p del: One_nat_def)
qed

theorem repeat_payment_return_value_witness:
  "(\<exists>b. get_backend test_env (backend renewed) = Inr b)
   \<and> length (failures (filter (\<lambda>r. repeat r = Some (uuid renewed)) (payments retry_world))) < 3
   \<and> post_error test_env = None
   \<and> fst (repeat_payment test_env Map.empty renewed retry_world) = Inr None
   \<and> \<not> truthy None
   \<and> repeat (last (payments (snd (repeat_payment test_env Map.empty renewed retry_world))))
       = Some (uuid renewed)
   \<and> posts (snd (repeat_payment test_env Map.empty renewed retry_world)) \<noteq> []
   \<and> post_error (test_env\<lparr>post_error := Some ConnectionError\<rparr>) = Some ConnectionError
   \<and> fst (repeat_payment (test_env\<lparr>post_error := Some ConnectionError\<rparr>) Map.empty renewed
        retry_world) = Inl ConnectionError
   \<and> butlast (payments (snd (repeat_payment (test_env\<lparr>post_error := Some ConnectionError\<rparr>)
        Map.empty renewed retry_world))) = payments retry_world
   \<and> posts (snd (repeat_payment (test_env\<lparr>post_error := Some ConnectionError\<rparr>)
        Map.empty renewed retry_world)) = posts retry_world
   \<and> fst (repeat_payment test_env Map.empty renewed abandoned_world) = Inr (Some False)
   \<and> snd (repeat_payment test_env Map.empty renewed abandoned_world) = abandoned_world
   \<and> fst (repeat_payment test_env Map.empty test_payment retry_world) = Inr (Some False)"
proof -
  have split2: "x = (fst x, snd x)" for x :: "(error + bool option) \<times> world"
    by simp
  have g: "\<exists>b. get_backend test_env (backend renewed) = Inr b"
    using test_get_backend by blast
  have g': "\<exists>b. get_backend (test_env\<lparr>post_error := Some ConnectionError\<rparr>) (backend renewed) = Inr b"
    using test_get_backend_offline by blast
  have u: "\<exists>err. get_backend test_env (backend test_payment) = Inl err"
    using test_unregistered by blast
  have p: "post_error test_env = None"
    by (simp add: test_env_def)
  have p': "post_error (test_env\<lparr>post_error := Some ConnectionError\<rparr>) = Some ConnectionError"
    by simp
  note a = repeat_payment_return_value[where e=test_env and kwargs=Map.empty and self=renewed and w=retry_world, OF split2]
  note d = repeat_payment_return_value[where e="test_env\<lparr>post_error := Some ConnectionError\<rparr>" and kwargs=Map.empty and self=renewed and w=retry_world, OF split2]
  note b = repeat_payment_return_value[where e=test_env and kwargs=Map.empty and self=renewed and w=abandoned_world, OF split2]
  note c = repeat_payment_return_value[where e=test_env and kwargs=Map.empty and self=test_payment and w=retry_world, OF split2]
  have a': "fst (repeat_payment test_env Map.empty renewed retry_world) = Inr None
     \<and> repeat (last (payments (snd (repeat_payment test_env Map.empty renewed retry_world))))
         = Some (uuid renewed)
     \<and> posts (snd (repeat_payment test_env Map.empty renewed retry_world)) \<noteq> []"
    using a g test_failures(1) p by blast
  have d': "fst (repeat_payment (test_env\<lparr>post_error := Some ConnectionError\<rparr>) Map.empty renewed
        retry_world) = Inl ConnectionError
     \<and> butlast (payments (snd (repeat_payment (test_env\<lparr>post_error := Some ConnectionError\<rparr>)
        Map.empty renewed retry_world))) = payments retry_world
     \<and> posts (snd (repeat_payment (test_env\<lparr>post_error := Some ConnectionError\<rparr>)
        Map.empty renewed retry_world)) = posts retry_world"
    using d g' test_failures(1) p' by blast
  have b': "fst (repeat_payment test_env Map.empty renewed abandoned_world) = Inr (Some False)
     \<and> snd (repeat_payment test_env Map.empty renewed abandoned_world) = abandoned_world"
    using b test_failures(2) by blast
  have c': "fst (repeat_payment test_env Map.empty test_payment retry_world) = Inr (Some False)"
    using c u by blast
  from a' b' c' d' g test_failures(1) p p' show ?thesis by simp
qed

end
